theory Spec2Isabelle
  imports Main
begin

section \<open>Values\<close>

text \<open>
  Values read from the JSON configuration file, as \<^verbatim>\<open>json.load\<close> returns them:
  \<^verbatim>\<open>None\<close>, booleans, integers, strings, lists and dicts with string keys. Fractional
  numbers are left out of the model. A dict is the list of its items; a key is looked up
  with \<open>map_of\<close>.
\<close>

datatype json =
    JNull
  | JBool bool
  | JNum int
  | JStr string
  | JList "json list"
  | JObj "(string \<times> json) list"

text \<open>Python truthiness (\<^verbatim>\<open>if x\<close>, \<^verbatim>\<open>not x\<close>, \<^verbatim>\<open>x or y\<close>).\<close>

fun truthy :: "json \<Rightarrow> bool" where
  "truthy JNull = False"
| "truthy (JBool b) = b"
| "truthy (JNum n) = (n \<noteq> 0)"
| "truthy (JStr s) = (s \<noteq> [])"
| "truthy (JList xs) = (xs \<noteq> [])"
| "truthy (JObj kvs) = (kvs \<noteq> [])"

text \<open>\<^verbatim>\<open>d.get(k)\<close> on a dict: \<^verbatim>\<open>None\<close> when the key is missing.\<close>

definition obj_get :: "(string \<times> json) list \<Rightarrow> string \<Rightarrow> json" where
  "obj_get kvs k = (case map_of kvs k of None \<Rightarrow> JNull | Some v \<Rightarrow> v)"

text \<open>\<^verbatim>\<open>s.rstrip('/')\<close>: every trailing occurrence of the character is removed.\<close>

definition rstrip :: "char \<Rightarrow> string \<Rightarrow> string" where
  "rstrip c s = rev (dropWhile (\<lambda>x. x = c) (rev s))"

text \<open>\<^verbatim>\<open>s.startswith(p)\<close>.\<close>

definition startswith :: "string \<Rightarrow> string \<Rightarrow> bool" where
  "startswith s p = (take (length p) s = p)"

section \<open>The client\<close>

text \<open>
  What an entered context manager stands for: a transport (the subprocess pipes of
  \<^verbatim>\<open>stdio_client\<close> with its command, arguments and \<^verbatim>\<open>PATH\<close>, or the stream of
  \<^verbatim>\<open>sse_client\<close> with its URL, headers and two timeouts) and the \<^verbatim>\<open>ClientSession\<close>
  built on one.
\<close>

datatype transport_params =
    StdioParams json json string
  | SseParams string "string \<rightharpoonup> json" nat nat

datatype resource = Transport transport_params | Session transport_params

text \<open>
  The attributes of an \<^verbatim>\<open>MCPClient\<close>. \<open>command\<close>, \<open>args\<close> and \<open>timeout\<close> hold whatever
  the caller or the configuration file supplied, so they are \<open>json\<close> values.
  \<open>exit_stack\<close> is \<^verbatim>\<open>_exit_stack\<close>: \<open>None\<close>, or the entered contexts, most recent first.
\<close>

record client =
  transport :: string
  command :: json
  args :: json
  base_url :: "string option"
  timeout :: json
  default_parameters :: "string \<rightharpoonup> json"
  headers :: "string \<rightharpoonup> json"
  mcp_client :: "resource option"
  exit_stack :: "resource list option"

text \<open>The arguments of \<^verbatim>\<open>MCPClient.__init__\<close> (a mapping is the list of its items).\<close>

record init_args =
  a_base_url :: "string option"
  a_timeout :: json
  a_api_key :: json
  a_default_headers :: "(string \<times> json) list option"
  a_default_parameters :: "(string \<times> json) list option"
  a_config_default_headers :: "(string \<times> json) list option"
  a_config_default_parameters :: "(string \<times> json) list option"
  a_transport :: string
  a_command :: json
  a_args :: json

datatype log = Warning string | Debug string

text \<open>
  Lines 113 to 124 of \<^verbatim>\<open>__init__\<close>: the API key is resolved against the process
  environment. The result is \<^verbatim>\<open>resolved_api_key\<close> (\<open>None\<close> for Python's \<^verbatim>\<open>None\<close>) and the
  diagnostics logged on the way.
\<close>

definition resolve_api_key :: "(string \<rightharpoonup> string) \<Rightarrow> json \<Rightarrow> string option \<times> log list" where
  "resolve_api_key environ api_key =
     (case api_key of
        JStr k \<Rightarrow>
          if startswith k ''env:'' then
            (let env_var_name = drop 4 k;
                 resolved = environ env_var_name
             in if resolved = None \<or> resolved = Some []
                then (resolved,
                      [Warning (''API key environment variable '' @ [CHR 0x27] @ env_var_name
                                @ [CHR 0x27] @ '' specified but not found.'')])
                else (resolved,
                      [Debug (''Loaded API key from environment variable '' @ [CHR 0x27]
                              @ env_var_name @ [CHR 0x27] @ ''.'')]))
          else (Some k, [])
      | _ \<Rightarrow> (None, []))"

text \<open>\<^verbatim>\<open>d.update(m)\<close> guarded by \<^verbatim>\<open>if m:\<close>, for an optional mapping \<open>m\<close>.\<close>

definition update_with :: "(string \<rightharpoonup> json) \<Rightarrow> (string \<times> json) list option \<Rightarrow> (string \<rightharpoonup> json)" where
  "update_with d m = (case m of None \<Rightarrow> d | Some kvs \<Rightarrow> d ++ map_of kvs)"

text \<open>Lines 126 to 133: the headers, the \<^verbatim>\<open>Authorization\<close> entry written last.\<close>

definition build_headers ::
  "(string \<times> json) list option \<Rightarrow> (string \<times> json) list option \<Rightarrow> string option
     \<Rightarrow> (string \<rightharpoonup> json)" where
  "build_headers config_default_headers default_headers resolved_api_key =
     (let h = update_with (update_with Map.empty config_default_headers) default_headers
      in case resolved_api_key of
           None \<Rightarrow> h
         | Some k \<Rightarrow> if k = [] then h else h(''Authorization'' \<mapsto> JStr (''Bearer '' @ k)))"

text \<open>\<^verbatim>\<open>MCPClient.__init__\<close>: the new client and the diagnostics of the key resolution.\<close>

definition init :: "(string \<rightharpoonup> string) \<Rightarrow> init_args \<Rightarrow> client \<times> log list" where
  "init environ a =
     (let (resolved_api_key, diags) = resolve_api_key environ (a_api_key a)
      in (\<lparr> transport = a_transport a,
            command = a_command a,
            args = (if truthy (a_args a) then a_args a else JList []),
            base_url = (case a_base_url a of
                          None \<Rightarrow> None
                        | Some u \<Rightarrow> if u = [] then None else Some (rstrip CHR ''/'' u)),
            timeout = a_timeout a,
            default_parameters =
              update_with (update_with Map.empty (a_config_default_parameters a))
                          (a_default_parameters a),
            headers = build_headers (a_config_default_headers a) (a_default_headers a)
                                    resolved_api_key,
            mcp_client = None,
            exit_stack = None \<rparr>,
          diags))"

text \<open>The defaults of the constructor's parameters.\<close>

definition DEFAULT_TIMEOUT :: int where
  "DEFAULT_TIMEOUT = 60"

definition default_args :: init_args where
  "default_args =
     \<lparr> a_base_url = None, a_timeout = JNum DEFAULT_TIMEOUT, a_api_key = JNull,
       a_default_headers = None, a_default_parameters = None,
       a_config_default_headers = None, a_config_default_parameters = None,
       a_transport = ''http'', a_command = JNull, a_args = JNull \<rparr>"

section \<open>Failures and the outside world\<close>

text \<open>
  The exceptions the code raises, by class, with the message where the code formats one.
  \<open>AttributeError\<close> and \<open>TypeError\<close> are raised by the interpreter (a method called on a
  value that has none, a membership test on a value that is not a container, an
  unhashable dict key). \<open>ExternalError\<close> is whatever a transport or session raises.
\<close>

datatype error =
    FileNotFoundError string
  | MCPDataError string
  | OSError string
  | MCPError string
  | ValueError string
  | KeyError string
  | MCPConnectionError string
  | AttributeError
  | TypeError
  | ExternalError string

text \<open>The outcome of \<^verbatim>\<open>open\<close> followed by \<^verbatim>\<open>json.load\<close>, the text being \<^verbatim>\<open>str(e)\<close>.\<close>

datatype load_outcome =
    Loaded json
  | JSONDecodeError string
  | ReadOSError string
  | OtherException string

text \<open>
  Everything the client asks of its surroundings: the process environment, the file
  system (\<open>home\<close> is \<open>None\<close> when \<^verbatim>\<open>Path.home()\<close> raises \<^verbatim>\<open>RuntimeError\<close>; \<open>is_file\<close> is
  \<open>None\<close> when \<^verbatim>\<open>Path.is_file\<close> raises \<^verbatim>\<open>OSError\<close>), the JSON loader, and the MCP
  library: the validation of \<^verbatim>\<open>StdioServerParameters(command, args, ...)\<close> and the
  context managers (\<open>Some e\<close>: the call raises \<open>e\<close>).
\<close>

record world =
  environ :: "string \<rightharpoonup> string"
  cwd :: string
  home :: "string option"
  resolve :: "string \<Rightarrow> string"
  is_file :: "string \<Rightarrow> bool option"
  load_json :: "string \<Rightarrow> load_outcome"
  stdio_parameters :: "json \<Rightarrow> json \<Rightarrow> error option"
  enter_context :: "resource \<Rightarrow> error option"
  session_initialize :: "transport_params \<Rightarrow> error option"
  exit_context :: "resource \<Rightarrow> error option"

definition quoted :: "string \<Rightarrow> string" where
  "quoted s = [CHR 0x27] @ s @ [CHR 0x27]"

text \<open>
  \<^verbatim>\<open>str(i)\<close> on an integer: the decimal digits, collected from the least significant
  one, behind a minus sign when the number is negative.
\<close>

definition digit_char :: "nat \<Rightarrow> char" where
  "digit_char d = char_of (of_char CHR ''0'' + d)"

fun decimal :: "nat \<Rightarrow> string \<Rightarrow> string" where
  "decimal n acc =
     (if n < 10 then digit_char n # acc
      else decimal (n div 10) (digit_char (n mod 10) # acc))"

definition py_str_int :: "int \<Rightarrow> string" where
  "py_str_int i = (if 0 \<le> i then decimal (nat i) [] else CHR ''-'' # decimal (nat (- i)) [])"

text \<open>
  \<^verbatim>\<open>str(v)\<close> inside an f-string, for the values that reach one: strings, integers,
  booleans and \<^verbatim>\<open>None\<close>. Lists and dicts never do (as a server name they are unhashable,
  and the lookup raises first).
\<close>

fun py_str :: "json \<Rightarrow> string" where
  "py_str (JStr s) = s"
| "py_str (JNum n) = py_str_int n"
| "py_str (JBool b) = (if b then ''True'' else ''False'')"
| "py_str JNull = ''None''"
| "py_str (JList xs) = []"
| "py_str (JObj kvs) = []"

text \<open>
  \<^verbatim>\<open>str.lower\<close>. Strings are byte strings here, and only the ASCII letters are mapped;
  the transports the code accepts are ASCII words.
\<close>

definition lower_char :: "char \<Rightarrow> char" where
  "lower_char c =
     (let n = (of_char c :: nat) in if 65 \<le> n \<and> n \<le> 90 then char_of (n + 32) else c)"

definition lower :: "string \<Rightarrow> string" where
  "lower s = map lower_char s"

text \<open>\<^verbatim>\<open>p in s\<close> on strings: \<open>p\<close> occurs in \<open>s\<close>.\<close>

fun is_substring :: "string \<Rightarrow> string \<Rightarrow> bool" where
  "is_substring p [] = (p = [])"
| "is_substring p (c # cs) = (startswith (c # cs) p \<or> is_substring p cs)"

section \<open>Locating the configuration file\<close>

definition DEFAULT_CONFIG_FILENAME :: string where
  "DEFAULT_CONFIG_FILENAME = ''mcp.json''"

text \<open>\<^verbatim>\<open>path / name\<close> on an absolute path.\<close>

definition path_join :: "string \<Rightarrow> string \<Rightarrow> string" where
  "path_join p name = (if p \<noteq> [] \<and> last p = CHR ''/'' then p @ name else p @ ''/'' @ name)"

text \<open>
  The candidates of \<^verbatim>\<open>_find_config_file\<close> (lines 146 to 156), in the order they are
  tried. \<^verbatim>\<open>if config_path:\<close> takes the first branch for a non-empty string.
\<close>

definition standard_paths :: "world \<Rightarrow> string list" where
  "standard_paths w =
     path_join (cwd w) DEFAULT_CONFIG_FILENAME #
     (case home w of
        None \<Rightarrow> []
      | Some home_dir \<Rightarrow>
          [path_join home_dir (''.'' @ DEFAULT_CONFIG_FILENAME),
           path_join (path_join (path_join home_dir ''.config'') ''mcp'')
                     DEFAULT_CONFIG_FILENAME])"

definition potential_paths :: "world \<Rightarrow> string option \<Rightarrow> string list" where
  "potential_paths w config_path =
     (case config_path of
        None \<Rightarrow> standard_paths w
      | Some p \<Rightarrow> if p \<noteq> [] then [resolve w p] else standard_paths w)"

text \<open>The loop of lines 158 to 168: a path whose test raises \<^verbatim>\<open>OSError\<close> is skipped.\<close>

fun first_file :: "world \<Rightarrow> string list \<Rightarrow> string option" where
  "first_file w [] = None"
| "first_file w (p # ps) = (if is_file w p = Some True then Some p else first_file w ps)"

definition find_config_file :: "world \<Rightarrow> string option \<Rightarrow> string option" where
  "find_config_file w config_path = first_file w (potential_paths w config_path)"

section \<open>Loading a client from the configuration file\<close>

text \<open>Lines 194 to 208 of \<^verbatim>\<open>from_config\<close>: the file is located and parsed.\<close>

definition load_config :: "world \<Rightarrow> string option \<Rightarrow> error + (string \<times> json)" where
  "load_config w config_path =
     (case find_config_file w config_path of
        None \<Rightarrow>
          Inl (FileNotFoundError
                 (''MCP configuration file not found at ''
                  @ quoted (case config_path of None \<Rightarrow> ''None'' | Some p \<Rightarrow> p)
                  @ '' or in standard locations.''))
      | Some found \<Rightarrow>
          (case load_json w found of
             Loaded config_data \<Rightarrow> Inr (found, config_data)
           | JSONDecodeError e \<Rightarrow>
               Inl (MCPDataError (''Invalid JSON in configuration file '' @ quoted found
                                  @ '': '' @ e))
           | ReadOSError e \<Rightarrow>
               Inl (OSError (''Could not read configuration file '' @ quoted found
                             @ '': '' @ e))
           | OtherException e \<Rightarrow>
               Inl (MCPError (''Unexpected error loading config file '' @ quoted found
                              @ '': '' @ e))))"

text \<open>\<^verbatim>\<open>"default" in v\<close> (line 215), for whatever the file holds under \<^verbatim>\<open>servers\<close>.\<close>

fun contains_default :: "json \<Rightarrow> error + bool" where
  "contains_default (JObj kvs) = Inr (''default'' \<in> set (map fst kvs))"
| "contains_default (JList xs) = Inr (JStr ''default'' \<in> set xs)"
| "contains_default (JStr s) = Inr (is_substring ''default'' s)"
| "contains_default JNull = Inl TypeError"
| "contains_default (JBool b) = Inl TypeError"
| "contains_default (JNum n) = Inl TypeError"

text \<open>Lines 213 to 218: the alias when no \<^verbatim>\<open>server_name\<close> is given.\<close>

definition default_target :: "string \<Rightarrow> json \<Rightarrow> error + json" where
  "default_target found config_data =
     (case config_data of
        JObj conf \<Rightarrow>
          (let target_server_name = obj_get conf ''default_server''
           in if truthy target_server_name then Inr target_server_name
              else (case contains_default
                           (case map_of conf ''servers'' of None \<Rightarrow> JObj [] | Some s \<Rightarrow> s) of
                      Inl e \<Rightarrow> Inl e
                    | Inr True \<Rightarrow> Inr (JStr ''default'')
                    | Inr False \<Rightarrow>
                        Inl (ValueError
                               (''No server_name specified and no '' @ quoted ''default_server''
                                @ '' key or '' @ quoted ''default'' @ '' server found in ''
                                @ quoted found @ ''.''))))
      | _ \<Rightarrow> Inl AttributeError)"

text \<open>Lines 210 to 219: the alias of the server to load.\<close>

definition target_server :: "string \<Rightarrow> string option \<Rightarrow> json \<Rightarrow> error + json" where
  "target_server found server_name config_data =
     (case server_name of
        None \<Rightarrow> default_target found config_data
      | Some s \<Rightarrow> if s \<noteq> [] then Inr (JStr s) else default_target found config_data)"

text \<open>
  Lines 221 to 228: the entry of that server. A list or dict as alias is unhashable; a
  number or boolean is looked up and not found, the keys being strings.
\<close>

definition server_entry :: "string \<Rightarrow> json \<Rightarrow> json \<Rightarrow> error + (string \<times> json) list" where
  "server_entry found config_data target_server_name =
     (case config_data of
        JObj conf \<Rightarrow>
          (case obj_get conf ''servers'' of
             JObj servers_dict \<Rightarrow>
               (case target_server_name of
                  JList _ \<Rightarrow> Inl TypeError
                | JObj _ \<Rightarrow> Inl TypeError
                | _ \<Rightarrow>
                   (case (case target_server_name of
                            JStr s \<Rightarrow> obj_get servers_dict s
                          | _ \<Rightarrow> JNull) of
                      JObj server_config \<Rightarrow> Inr server_config
                    | _ \<Rightarrow>
                        Inl (KeyError
                               (''Server configuration '' @ quoted (py_str target_server_name)
                                @ '' not found or is not a valid dictionary in ''
                                @ quoted found @ ''.''))))
           | _ \<Rightarrow>
               Inl (MCPDataError (''Missing or invalid '' @ quoted ''servers''
                                  @ '' dictionary in '' @ quoted found @ ''.'')))
      | _ \<Rightarrow> Inl AttributeError)"

text \<open>
  Lines 231 to 249: the transport and the fields it requires, read from the entry. The
  result is \<^verbatim>\<open>base_url\<close>, \<^verbatim>\<open>transport\<close>, \<^verbatim>\<open>command\<close> and \<^verbatim>\<open>args\<close> as they stand after
  line 249 (\<^verbatim>\<open>base_url\<close> is then \<^verbatim>\<open>None\<close> or a non-empty string).
\<close>

definition transport_fields ::
  "json \<Rightarrow> (string \<times> json) list \<Rightarrow> error + (string option \<times> string \<times> json \<times> json)" where
  "transport_fields target_server_name server_config =
     (let conf_base_url = obj_get server_config ''base_url'';
          conf_command = obj_get server_config ''command'';
          conf_args = obj_get server_config ''args'';
          name = quoted (py_str target_server_name)
      in case (case map_of server_config ''transport'' of
                 None \<Rightarrow> Inr ''http''
               | Some (JStr t) \<Rightarrow> Inr (lower t)
               | Some _ \<Rightarrow> Inl AttributeError) of
           Inl e \<Rightarrow> Inl e
         | Inr conf_transport \<Rightarrow>
             if conf_transport = ''stdio'' then
               (if \<not> truthy conf_command then
                  Inl (MCPDataError (''Missing '' @ quoted ''command''
                                     @ '' for stdio transport in server '' @ name @ ''.''))
                else case conf_command of
                  JStr _ \<Rightarrow>
                    (case conf_args of
                       JNull \<Rightarrow> Inr (None, conf_transport, conf_command, conf_args)
                     | JList _ \<Rightarrow> Inr (None, conf_transport, conf_command, conf_args)
                     | _ \<Rightarrow>
                         Inl (MCPDataError (''Invalid '' @ quoted ''args''
                                @ '' format for stdio transport in server '' @ name
                                @ ''. Expected a list.'')))
                | _ \<Rightarrow>
                    Inl (MCPDataError (''Invalid '' @ quoted ''command''
                           @ '' format for stdio transport in server '' @ name
                           @ ''. Expected a string.'')))
             else if conf_transport = ''http'' \<or> conf_transport = ''sse'' then
               (case conf_base_url of
                  JStr u \<Rightarrow>
                    if u \<noteq> [] then Inr (Some u, conf_transport, conf_command, conf_args)
                    else Inl (MCPDataError (''Missing or invalid '' @ quoted ''base_url''
                                @ '' (string) for server '' @ name @ '' with transport ''
                                @ quoted conf_transport @ ''.''))
                | _ \<Rightarrow>
                    Inl (MCPDataError (''Missing or invalid '' @ quoted ''base_url''
                           @ '' (string) for server '' @ name @ '' with transport ''
                           @ quoted conf_transport @ ''.'')))
             else
               Inl (ValueError (''Unsupported transport protocol '' @ quoted conf_transport
                                @ '' for server '' @ name @ ''.'')))"

text \<open>
  The keyword arguments of \<^verbatim>\<open>from_config\<close> that the function reads, typed as the
  constructor annotates them. A keyword is \<open>Absent\<close> or \<open>Given\<close>; \<open>Given None\<close> is
  \<^verbatim>\<open>None\<close> passed explicitly.
\<close>

datatype 'a kwarg = Absent | Given "'a option"

record kwargs =
  kw_base_url :: "string kwarg"
  kw_timeout :: "int kwarg"
  kw_api_key :: "string kwarg"
  kw_default_headers :: "(string \<times> json) list kwarg"
  kw_default_parameters :: "(string \<times> json) list kwarg"
  kw_transport :: "string kwarg"
  kw_command :: "string kwarg"
  kw_args :: "string list kwarg"

text \<open>\<^verbatim>\<open>kwargs.get(k, d)\<close>, and the same with the caller's value read as \<open>json\<close>.\<close>

fun kwargs_get :: "'a kwarg \<Rightarrow> 'a option \<Rightarrow> 'a option" where
  "kwargs_get Absent d = d"
| "kwargs_get (Given v) d = v"

fun kwargs_get_json :: "('a \<Rightarrow> json) \<Rightarrow> 'a kwarg \<Rightarrow> json \<Rightarrow> json" where
  "kwargs_get_json to_json Absent d = d"
| "kwargs_get_json to_json (Given None) d = JNull"
| "kwargs_get_json to_json (Given (Some v)) d = to_json v"

text \<open>A value of the file kept only when it is a dict (lines 258 to 263).\<close>

fun dict_or_none :: "json \<Rightarrow> (string \<times> json) list option" where
  "dict_or_none (JObj kvs) = Some kvs"
| "dict_or_none _ = None"

text \<open>
  Lines 252 to 286: the arguments handed to the constructor. The loop of lines 281 to
  285 drops every key whose value is \<^verbatim>\<open>None\<close>, so the constructor's default applies;
  that default is \<^verbatim>\<open>None\<close> again except for \<^verbatim>\<open>transport\<close>, whose default is
  \<^verbatim>\<open>"http"\<close> (\<^verbatim>\<open>timeout\<close> is never \<^verbatim>\<open>None\<close> after line 268).
\<close>

definition init_kwargs ::
  "(string \<times> json) list \<Rightarrow> string option \<Rightarrow> string \<Rightarrow> json \<Rightarrow> json \<Rightarrow> kwargs \<Rightarrow> init_args" where
  "init_kwargs server_config conf_base_url conf_transport conf_command conf_args kwargs =
     \<lparr> a_base_url = kwargs_get (kw_base_url kwargs) conf_base_url,
       a_timeout =
         (let t = kwargs_get_json JNum (kw_timeout kwargs) (obj_get server_config ''timeout'')
          in if truthy t then t else JNum DEFAULT_TIMEOUT),
       a_api_key = kwargs_get_json JStr (kw_api_key kwargs) (obj_get server_config ''api_key''),
       a_default_headers = kwargs_get (kw_default_headers kwargs) None,
       a_default_parameters = kwargs_get (kw_default_parameters kwargs) None,
       a_config_default_headers = dict_or_none (obj_get server_config ''default_headers''),
       a_config_default_parameters =
         dict_or_none (obj_get server_config ''default_parameters''),
       a_transport =
         (case kwargs_get (kw_transport kwargs) (Some conf_transport) of
            None \<Rightarrow> a_transport default_args
          | Some t \<Rightarrow> t),
       a_command = kwargs_get_json JStr (kw_command kwargs) conf_command,
       a_args = kwargs_get_json (\<lambda>xs. JList (map JStr xs)) (kw_args kwargs) conf_args \<rparr>"

text \<open>\<^verbatim>\<open>MCPClient.from_config\<close>.\<close>

definition from_config ::
  "world \<Rightarrow> string option \<Rightarrow> string option \<Rightarrow> kwargs \<Rightarrow> error + client" where
  "from_config w server_name config_path kwargs =
     (case load_config w config_path of
        Inl e \<Rightarrow> Inl e
      | Inr (found, config_data) \<Rightarrow>
          (case target_server found server_name config_data of
             Inl e \<Rightarrow> Inl e
           | Inr target_server_name \<Rightarrow>
               (case server_entry found config_data target_server_name of
                  Inl e \<Rightarrow> Inl e
                | Inr server_config \<Rightarrow>
                    (case transport_fields target_server_name server_config of
                       Inl e \<Rightarrow> Inl e
                     | Inr (conf_base_url, conf_transport, conf_command, conf_args) \<Rightarrow>
                         Inr (fst (init (environ w)
                                     (init_kwargs server_config conf_base_url conf_transport
                                        conf_command conf_args kwargs)))))))"

section \<open>The session lifecycle\<close>

text \<open>
  What a call does to the outside: a context manager entered (also when entering
  raises), the session's handshake, a context manager exited.
\<close>

datatype event = Enter resource | Initialize transport_params | Exit resource

definition DEFAULT_HTTP_TIMEOUT :: nat where
  "DEFAULT_HTTP_TIMEOUT = 5"

definition DEFAULT_SSE_READ_TIMEOUT :: nat where
  "DEFAULT_SSE_READ_TIMEOUT = 60 * 5"

text \<open>
  The common tail of the two transport branches of \<^verbatim>\<open>_initialize\<close> (lines 309 to 315
  and 322 to 330): the transport is entered on the exit stack, then the session, then the
  handshake runs and the session is stored. \<open>c\<close> already holds the empty exit stack.
\<close>

definition open_session ::
  "world \<Rightarrow> client \<Rightarrow> transport_params \<Rightarrow> error option \<times> client \<times> event list" where
  "open_session w c t =
     (case enter_context w (Transport t) of
        Some e \<Rightarrow> (Some e, c, [Enter (Transport t)])
      | None \<Rightarrow>
          (case enter_context w (Session t) of
             Some e \<Rightarrow>
               (Some e, c\<lparr>exit_stack := Some [Transport t]\<rparr>,
                [Enter (Transport t), Enter (Session t)])
           | None \<Rightarrow>
               (case session_initialize w t of
                  Some e \<Rightarrow>
                    (Some e, c\<lparr>exit_stack := Some [Session t, Transport t]\<rparr>,
                     [Enter (Transport t), Enter (Session t), Initialize t])
                | None \<Rightarrow>
                    (None,
                     c\<lparr>exit_stack := Some [Session t, Transport t],
                       mcp_client := Some (Session t)\<rparr>,
                     [Enter (Transport t), Enter (Session t), Initialize t]))))"

text \<open>
  \<^verbatim>\<open>MCPClient._initialize\<close>: the exception raised, if any, the client afterwards and the
  events. The exit stack is assigned on line 293, before the transport is looked at, and
  no branch takes it back. On stdio the parameter object is built (line 301) before
  anything is entered.
\<close>

definition initialize :: "world \<Rightarrow> client \<Rightarrow> error option \<times> client \<times> event list" where
  "initialize w c =
     (case exit_stack c of
        Some _ \<Rightarrow> (None, c, [])
      | None \<Rightarrow>
          (let c0 = c\<lparr>exit_stack := Some []\<rparr>
           in if transport c = ''stdio'' then
                (case stdio_parameters w (command c) (args c) of
                   Some e \<Rightarrow> (Some e, c0, [])
                 | None \<Rightarrow>
                     open_session w c0
                       (StdioParams (command c) (args c)
                          (case environ w ''PATH'' of None \<Rightarrow> [] | Some p \<Rightarrow> p)))
              else if transport c = ''sse'' then
                (case base_url c of
                   None \<Rightarrow>
                     (Some (MCPConnectionError ''Base URL is required for SSE transport''),
                      c0, [])
                 | Some u \<Rightarrow>
                     if u = [] then
                       (Some (MCPConnectionError ''Base URL is required for SSE transport''),
                        c0, [])
                     else
                       open_session w c0
                         (SseParams u (headers c) DEFAULT_HTTP_TIMEOUT
                            DEFAULT_SSE_READ_TIMEOUT))
              else if transport c = ''http'' then
                (Some (ValueError
                         (''HTTP transport is not supported by the official MCP library. Use ''
                          @ quoted ''sse'' @ '' instead.'')),
                 c0, [])
              else
                (Some (ValueError (''Unsupported transport protocol: '' @ transport c)), c0, [])))"

text \<open>
  \<^verbatim>\<open>AsyncExitStack.aclose\<close>: every context on the stack is exited, most recent first,
  also after one of them raised; the exception that leaves is the last one raised. The
  stack is empty afterwards.
\<close>

fun aclose :: "world \<Rightarrow> resource list \<Rightarrow> error option \<Rightarrow> error option \<times> event list" where
  "aclose w [] pending = (pending, [])"
| "aclose w (r # rs) pending =
     (let (e, evs) = aclose w rs (case exit_context w r of None \<Rightarrow> pending | Some e' \<Rightarrow> Some e')
      in (e, Exit r # evs))"

text \<open>
  \<^verbatim>\<open>MCPClient.close\<close>. When \<^verbatim>\<open>aclose\<close> raises, lines 371 and 372 are not reached: the
  two attributes keep their values (the stack object, now empty, and the session).
\<close>

definition close :: "world \<Rightarrow> client \<Rightarrow> error option \<times> client \<times> event list" where
  "close w c =
     (case exit_stack c of
        None \<Rightarrow> (None, c, [])
      | Some stack \<Rightarrow>
          (case aclose w stack None of
             (Some e, evs) \<Rightarrow> (Some e, c\<lparr>exit_stack := Some []\<rparr>, evs)
           | (None, evs) \<Rightarrow> (None, c\<lparr>exit_stack := None, mcp_client := None\<rparr>, evs)))"

section \<open>Example inputs\<close>

text \<open>Constructor arguments in which the file, the caller and the API key all set a header.\<close>

definition ex_header_args :: init_args where
  "ex_header_args =
     default_args\<lparr> a_api_key := JStr ''sk-1'',
                   a_config_default_headers :=
                     Some [(''Authorization'', JStr ''Basic old''), (''X-A'', JStr ''file''),
                           (''X-B'', JStr ''file'')],
                   a_default_headers :=
                     Some [(''Authorization'', JStr ''Basic mine''), (''X-A'', JStr ''caller'')] \<rparr>"

text \<open>
  A configuration file with a default server on stdio and two servers on sse, one with
  a timeout and one with an API key:
  \<^verbatim>\<open>{"default_server": "a", "servers": {"a": {"transport": "stdio", "command": "echo",
  "args": ["hi"]}, "b": {"transport": "sse", "base_url": "http://f", "timeout": 30},
  "c": {"transport": "sse", "base_url": "http://g", "api_key": "filekey"}}}\<close>.
\<close>

definition ex_conf :: "(string \<times> json) list" where
  "ex_conf =
     [(''default_server'', JStr ''a''),
      (''servers'',
       JObj [(''a'', JObj [(''transport'', JStr ''stdio''), (''command'', JStr ''echo''),
                          (''args'', JList [JStr ''hi''])]),
             (''b'', JObj [(''transport'', JStr ''sse''), (''base_url'', JStr ''http://f''),
                          (''timeout'', JNum 30)]),
             (''c'', JObj [(''transport'', JStr ''sse''), (''base_url'', JStr ''http://g''),
                          (''api_key'', JStr ''filekey'')])])]"

definition ex_config :: json where
  "ex_config = JObj ex_conf"

text \<open>
  A machine whose working directory \<^verbatim>\<open>/work\<close> holds that file as \<^verbatim>\<open>mcp.json\<close>, with a
  file \<^verbatim>\<open>/etc/bad.json\<close> that is not JSON and a file \<^verbatim>\<open>/etc/locked.json\<close> that cannot be
  read, and on which every transport opens and closes without raising.
\<close>

definition ex_world :: world where
  "ex_world =
     \<lparr> environ = [''FOO'' \<mapsto> ''secret123''],
       cwd = ''/work'',
       home = Some ''/home/u'',
       resolve = (\<lambda>p. if startswith p ''/'' then p else ''/work/'' @ p),
       is_file = (\<lambda>p. Some (p = ''/work/mcp.json'' \<or> p = ''/etc/bad.json''
                              \<or> p = ''/etc/locked.json'')),
       load_json =
         (\<lambda>p. if p = ''/work/mcp.json'' then Loaded ex_config
              else if p = ''/etc/bad.json'' then JSONDecodeError ''Expecting value''
              else ReadOSError ''Permission denied''),
       stdio_parameters = (\<lambda>cmd a. None),
       enter_context = (\<lambda>r. None),
       session_initialize = (\<lambda>t. None),
       exit_context = (\<lambda>r. None) \<rparr>"

text \<open>\<^verbatim>\<open>MCPClient()\<close>, whose transport is the default \<^verbatim>\<open>"http"\<close>.\<close>

definition ex_http_client :: client where
  "ex_http_client = fst (init Map.empty default_args)"

text \<open>\<^verbatim>\<open>MCPClient(transport="stdio", command="echo", args=["hi"])\<close>.\<close>

definition ex_stdio_client :: client where
  "ex_stdio_client =
     fst (init Map.empty
            (default_args\<lparr> a_transport := ''stdio'', a_command := JStr ''echo'',
                           a_args := JList [JStr ''hi''] \<rparr>))"

text \<open>The same machine, on which leaving a transport or a session raises.\<close>

definition ex_world_failing :: world where
  "ex_world_failing = ex_world\<lparr>exit_context := (\<lambda>r. Some (ExternalError ''broken pipe''))\<rparr>"

text \<open>The same machine with \<^verbatim>\<open>{"default_server": 5, "servers": {}}\<close> as the file.\<close>

definition ex_world_numeric :: world where
  "ex_world_numeric =
     ex_world\<lparr>load_json :=
                (\<lambda>p. Loaded (JObj [(''default_server'', JNum 5), (''servers'', JObj [])]))\<rparr>"

section \<open>Notions used in the statements\<close>

text \<open>\<^verbatim>\<open>from_config\<close> called without keyword arguments.\<close>

definition no_kwargs :: kwargs where
  "no_kwargs =
     \<lparr> kw_base_url = Absent, kw_timeout = Absent, kw_api_key = Absent,
       kw_default_headers = Absent, kw_default_parameters = Absent, kw_transport = Absent,
       kw_command = Absent, kw_args = Absent \<rparr>"

text \<open>
  Two failure kinds of the specification, read as exception classes. The code raises
  \<^verbatim>\<open>ValueError\<close> when no alias can be resolved and \<^verbatim>\<open>KeyError\<close> when the alias has no
  entry (configuration-missing); it raises \<^verbatim>\<open>MCPDataError\<close> for malformed JSON and for
  fields of the wrong shape (data-format).
\<close>

definition configuration_missing :: "error \<Rightarrow> bool" where
  "configuration_missing e = (case e of ValueError _ \<Rightarrow> True | KeyError _ \<Rightarrow> True | _ \<Rightarrow> False)"

definition data_format :: "error \<Rightarrow> bool" where
  "data_format e = (case e of MCPDataError _ \<Rightarrow> True | _ \<Rightarrow> False)"

text \<open>\<^verbatim>\<open>isinstance(v, dict)\<close>.\<close>

fun is_dict :: "json \<Rightarrow> bool" where
  "is_dict (JObj _) = True"
| "is_dict _ = False"

text \<open>The same machine with \<^verbatim>\<open>{}\<close> as the content of \<^verbatim>\<open>/work/mcp.json\<close>.\<close>

definition ex_world_empty :: world where
  "ex_world_empty = ex_world\<lparr>load_json := (\<lambda>p. Loaded (JObj []))\<rparr>"

section \<open>Properties of the constructor\<close>

lemma rstrip_not_trailing: "rstrip c s \<noteq> [] \<Longrightarrow> last (rstrip c s) \<noteq> c"
proof -
  assume ne: "rstrip c s \<noteq> []"
  then have d: "dropWhile (\<lambda>x. x = c) (rev s) \<noteq> []"
    by (simp add: rstrip_def)
  then have "hd (dropWhile (\<lambda>x. x = c) (rev s)) \<noteq> c"
    using hd_dropWhile [of "\<lambda>x. x = c" "rev s"] by simp
  with d show ?thesis
    by (simp add: rstrip_def last_rev)
qed

lemma takeWhile_eq_replicate:
  "takeWhile (\<lambda>x. x = c) xs = replicate (length (takeWhile (\<lambda>x. x = c) xs)) c"
  by (induction xs) auto

lemma rstrip_decompose: "\<exists>n. s = rstrip c s @ replicate n c"
proof -
  let ?P = "\<lambda>x. x = c"
  have "rev (dropWhile ?P (rev s)) @ rev (takeWhile ?P (rev s))
          = rev (takeWhile ?P (rev s) @ dropWhile ?P (rev s))"
    by (simp only: rev_append)
  also have "\<dots> = s"
    by (simp only: takeWhile_dropWhile_id rev_rev_ident)
  finally have "s = rstrip c s @ rev (takeWhile ?P (rev s))"
    by (simp add: rstrip_def)
  moreover have "rev (takeWhile ?P (rev s)) = replicate (length (takeWhile ?P (rev s))) c"
    using takeWhile_eq_replicate [of c "rev s"] by (metis rev_replicate)
  ultimately show ?thesis by metis
qed

lemma rstrip_empty_iff: "rstrip c s = [] \<longleftrightarrow> set s \<subseteq> {c}"
proof -
  have "rstrip c s = [] \<longleftrightarrow> dropWhile (\<lambda>x. x = c) (rev s) = []"
    by (simp add: rstrip_def)
  also have "\<dots> \<longleftrightarrow> (\<forall>x \<in> set (rev s). x = c)"
    by simp
  also have "\<dots> \<longleftrightarrow> set s \<subseteq> {c}"
    by auto
  finally show ?thesis .
qed

lemma base_url_init:
  "base_url (fst (init env a)) =
     (case a_base_url a of None \<Rightarrow> None
      | Some u \<Rightarrow> if u = [] then None else Some (rstrip CHR ''/'' u))"
  by (simp add: init_def split: prod.splits)

text \<open>
  C10, as the code has it. A non-empty \<^verbatim>\<open>base_url\<close> is stored without its trailing
  slashes: the argument is the stored string followed by slashes only, and the stored
  string does not end in a slash. \<^verbatim>\<open>None\<close> and the empty string are stored as \<^verbatim>\<open>None\<close>.
  A stored \<^verbatim>\<open>base_url\<close> never ends in a slash. It is the empty string exactly when the
  argument is a non-empty string of slashes only: the emptiness test of line 103 runs
  before \<^verbatim>\<open>rstrip\<close>, not after.
\<close>

theorem base_url_stored:
  "(a_base_url a = Some u \<and> u \<noteq> [] \<longrightarrow>
      (\<exists>s n. base_url (fst (init env a)) = Some s \<and> u = s @ replicate n CHR ''/''
             \<and> (s = [] \<or> last s \<noteq> CHR ''/'')))
   \<and> (a_base_url a = None \<or> a_base_url a = Some [] \<longrightarrow> base_url (fst (init env a)) = None)
   \<and> (\<forall>s. base_url (fst (init env a)) = Some s \<longrightarrow> s = [] \<or> last s \<noteq> CHR ''/'')
   \<and> (base_url (fst (init env a)) = Some [] \<longleftrightarrow>
        (\<exists>v. a_base_url a = Some v \<and> v \<noteq> [] \<and> set v \<subseteq> {CHR ''/''}))"
proof (intro conjI impI allI)
  assume h: "a_base_url a = Some u \<and> u \<noteq> []"
  obtain n where n: "u = rstrip CHR ''/'' u @ replicate n CHR ''/''"
    using rstrip_decompose by blast
  have "base_url (fst (init env a)) = Some (rstrip CHR ''/'' u)"
    using h by (simp add: base_url_init)
  with n rstrip_not_trailing [of "CHR ''/''" u]
  show "\<exists>s n. base_url (fst (init env a)) = Some s \<and> u = s @ replicate n CHR ''/''
             \<and> (s = [] \<or> last s \<noteq> CHR ''/'')"
    by blast
next
  assume "a_base_url a = None \<or> a_base_url a = Some []"
  then show "base_url (fst (init env a)) = None"
    by (auto simp: base_url_init)
next
  fix s assume "base_url (fst (init env a)) = Some s"
  then show "s = [] \<or> last s \<noteq> CHR ''/''"
    using rstrip_not_trailing [of "CHR ''/''"]
    by (auto simp: base_url_init split: option.splits if_splits)
next
  show "base_url (fst (init env a)) = Some [] \<longleftrightarrow>
        (\<exists>v. a_base_url a = Some v \<and> v \<noteq> [] \<and> set v \<subseteq> {CHR ''/''})"
    by (auto simp: base_url_init rstrip_empty_iff split: option.splits if_splits)
qed

text \<open>The constructor called with \<^verbatim>\<open>base_url="http://h:1//"\<close>, and with \<^verbatim>\<open>base_url=""\<close>.\<close>

theorem base_url_stored_witness:
  "a_base_url (default_args\<lparr>a_base_url := Some ''http://h:1//''\<rparr>) = Some ''http://h:1//''
   \<and> base_url (fst (init Map.empty (default_args\<lparr>a_base_url := Some ''http://h:1//''\<rparr>)))
       = Some ''http://h:1''
   \<and> base_url (fst (init Map.empty (default_args\<lparr>a_base_url := Some ''''\<rparr>))) = None"
  using base_url_stored [of "default_args\<lparr>a_base_url := Some ''http://h:1//''\<rparr>"
                            "''http://h:1//''" Map.empty]
  by (simp add: init_def default_args_def rstrip_def resolve_api_key_def)

text \<open>
  C10 as stated fails: \<^verbatim>\<open>MCPClient(base_url="/")\<close> stores the empty string, which the
  claim says is never stored.
\<close>

theorem base_url_empty_counterexample:
  "base_url (fst (init Map.empty (default_args\<lparr>a_base_url := Some ''/''\<rparr>))) = Some ''''"
  by (simp add: init_def default_args_def rstrip_def resolve_api_key_def)

lemma resolve_env_unset:
  "env name = None \<or> env name = Some [] \<Longrightarrow>
   resolve_api_key env (JStr (''env:'' @ name)) =
     (env name, [Warning (''API key environment variable '' @ [CHR 0x27] @ name
                          @ [CHR 0x27] @ '' specified but not found.'')])"
  by (auto simp: resolve_api_key_def startswith_def)

lemma resolve_env_set:
  "env name = Some v \<Longrightarrow> v \<noteq> [] \<Longrightarrow>
   fst (resolve_api_key env (JStr (''env:'' @ name))) = Some v"
  by (simp add: resolve_api_key_def startswith_def)

lemma resolve_literal:
  "\<not> startswith k ''env:'' \<Longrightarrow> resolve_api_key env (JStr k) = (Some k, [])"
  by (simp add: resolve_api_key_def)

lemma headers_init:
  "headers (fst (init env a)) =
     build_headers (a_config_default_headers a) (a_default_headers a)
       (fst (resolve_api_key env (a_api_key a)))"
  by (simp add: init_def split: prod.splits)

lemma diags_init: "snd (init env a) = snd (resolve_api_key env (a_api_key a))"
  by (simp add: init_def split: prod.splits)

lemma build_headers_no_secret:
  "r = None \<or> r = Some [] \<Longrightarrow>
   build_headers cfg dh r = update_with (update_with Map.empty cfg) dh"
  by (auto simp: build_headers_def Let_def)

lemma build_headers_secret:
  "s \<noteq> [] \<Longrightarrow> build_headers cfg dh (Some s) ''Authorization'' = Some (JStr (''Bearer '' @ s))"
  by (simp add: build_headers_def Let_def)

lemma build_headers_other:
  "k \<noteq> ''Authorization'' \<Longrightarrow>
   build_headers cfg dh r k = update_with (update_with Map.empty cfg) dh k"
  by (simp add: build_headers_def Let_def split: option.splits)

lemma update_with_lookup:
  "update_with (update_with Map.empty cfg) dh k =
     (case (case dh of None \<Rightarrow> None | Some kvs \<Rightarrow> map_of kvs k) of
        Some v \<Rightarrow> Some v
      | None \<Rightarrow> (case cfg of None \<Rightarrow> None | Some kvs \<Rightarrow> map_of kvs k))"
  by (simp add: update_with_def map_add_def split: option.splits)

text \<open>
  C5. With \<^verbatim>\<open>api_key = "env:NAME"\<close> and \<^verbatim>\<open>NAME\<close> unset or empty, the constructor returns
  a client whose headers are the file's and the caller's headers and nothing else, so
  there is no \<^verbatim>\<open>Authorization\<close> entry unless one of those two supplies it, and the only
  diagnostic is a warning. With \<^verbatim>\<open>NAME\<close> set to a non-empty value \<open>v\<close> the header is
  \<^verbatim>\<open>Bearer v\<close>. An \<^verbatim>\<open>api_key\<close> that does not start with \<^verbatim>\<open>env:\<close> is the secret as it
  stands. The constructor is a total function: it has no failing branch.
\<close>

theorem api_key_resolution:
  "(a_api_key a = JStr (''env:'' @ name) \<and> (env name = None \<or> env name = Some []) \<longrightarrow>
      headers (fst (init env a))
        = update_with (update_with Map.empty (a_config_default_headers a)) (a_default_headers a)
      \<and> snd (init env a)
          = [Warning (''API key environment variable '' @ quoted name
                      @ '' specified but not found.'')]
      \<and> ((a_config_default_headers a = None
             \<or> (\<exists>kvs. a_config_default_headers a = Some kvs \<and> ''Authorization'' \<notin> fst ` set kvs))
          \<and> (a_default_headers a = None
             \<or> (\<exists>kvs. a_default_headers a = Some kvs \<and> ''Authorization'' \<notin> fst ` set kvs))
          \<longrightarrow> headers (fst (init env a)) ''Authorization'' = None))
   \<and> (a_api_key a = JStr (''env:'' @ name) \<and> env name = Some v \<and> v \<noteq> [] \<longrightarrow>
        headers (fst (init env a)) ''Authorization'' = Some (JStr (''Bearer '' @ v)))
   \<and> (a_api_key a = JStr k \<and> \<not> startswith k ''env:'' \<longrightarrow>
        fst (resolve_api_key env (a_api_key a)) = Some k
        \<and> (k \<noteq> [] \<longrightarrow>
             headers (fst (init env a)) ''Authorization'' = Some (JStr (''Bearer '' @ k))))"
proof (intro conjI impI)
  assume h: "a_api_key a = JStr (''env:'' @ name) \<and> (env name = None \<or> env name = Some [])"
  then have r: "fst (resolve_api_key env (a_api_key a)) = None
                \<or> fst (resolve_api_key env (a_api_key a)) = Some []"
    using resolve_env_unset [of env name] by auto
  then show hd: "headers (fst (init env a))
        = update_with (update_with Map.empty (a_config_default_headers a)) (a_default_headers a)"
    by (simp only: headers_init build_headers_no_secret)
  show "snd (init env a)
          = [Warning (''API key environment variable '' @ quoted name
                      @ '' specified but not found.'')]"
    using h resolve_env_unset [of env name] by (auto simp: diags_init quoted_def)
  assume "(a_config_default_headers a = None
             \<or> (\<exists>kvs. a_config_default_headers a = Some kvs \<and> ''Authorization'' \<notin> fst ` set kvs))
          \<and> (a_default_headers a = None
             \<or> (\<exists>kvs. a_default_headers a = Some kvs \<and> ''Authorization'' \<notin> fst ` set kvs))"
  then have "update_with (update_with Map.empty (a_config_default_headers a))
               (a_default_headers a) ''Authorization'' = None"
    by (auto simp: update_with_lookup map_of_eq_None_iff split: option.splits)
  with hd show "headers (fst (init env a)) ''Authorization'' = None"
    by simp
next
  assume "a_api_key a = JStr (''env:'' @ name) \<and> env name = Some v \<and> v \<noteq> []"
  then show "headers (fst (init env a)) ''Authorization'' = Some (JStr (''Bearer '' @ v))"
    using resolve_env_set [of env name v] by (simp add: headers_init build_headers_secret)
next
  assume h: "a_api_key a = JStr k \<and> \<not> startswith k ''env:''"
  then show "fst (resolve_api_key env (a_api_key a)) = Some k"
    by (simp add: resolve_literal)
  assume "k \<noteq> []"
  with h show "headers (fst (init env a)) ''Authorization'' = Some (JStr (''Bearer '' @ k))"
    by (simp add: headers_init resolve_literal build_headers_secret)
qed

text \<open>\<^verbatim>\<open>api_key="env:FOO"\<close> with \<^verbatim>\<open>FOO\<close> unset and with \<^verbatim>\<open>FOO=secret123\<close>; a literal key.\<close>

theorem api_key_resolution_witness:
  "headers (fst (init Map.empty (default_args\<lparr>a_api_key := JStr ''env:FOO''\<rparr>))) ''Authorization''
     = None
   \<and> snd (init Map.empty (default_args\<lparr>a_api_key := JStr ''env:FOO''\<rparr>))
       = [Warning (''API key environment variable '' @ quoted ''FOO''
                   @ '' specified but not found.'')]
   \<and> headers (fst (init [''FOO'' \<mapsto> ''secret123''] (default_args\<lparr>a_api_key := JStr ''env:FOO''\<rparr>)))
       ''Authorization'' = Some (JStr ''Bearer secret123'')
   \<and> headers (fst (init Map.empty (default_args\<lparr>a_api_key := JStr ''sk-1''\<rparr>)))
       ''Authorization'' = Some (JStr ''Bearer sk-1'')"
  using api_key_resolution [of "default_args\<lparr>a_api_key := JStr ''env:FOO''\<rparr>" "''FOO''"
                               Map.empty "''x''" "''sk-1''"]
        api_key_resolution [of "default_args\<lparr>a_api_key := JStr ''env:FOO''\<rparr>" "''FOO''"
                               "[''FOO'' \<mapsto> ''secret123'']" "''secret123''" "''sk-1''"]
        api_key_resolution [of "default_args\<lparr>a_api_key := JStr ''sk-1''\<rparr>" "''FOO''"
                               Map.empty "''x''" "''sk-1''"]
  by (simp add: default_args_def startswith_def quoted_def update_with_def)

text \<open>
  C6. When a non-empty secret was resolved, the \<^verbatim>\<open>Authorization\<close> header is the
  synthesized \<^verbatim>\<open>Bearer\<close> value, whatever the file and the caller give for that key. On
  every other key, and on \<^verbatim>\<open>Authorization\<close> when no secret was resolved, the caller's
  header wins over the file's, and the file's is used when the caller gives none.
\<close>

theorem header_assembly_order:
  "(\<forall>s. fst (resolve_api_key env (a_api_key a)) = Some s \<and> s \<noteq> [] \<longrightarrow>
        headers (fst (init env a)) ''Authorization'' = Some (JStr (''Bearer '' @ s)))
   \<and> (\<forall>k. k \<noteq> ''Authorization''
            \<or> fst (resolve_api_key env (a_api_key a)) = None
            \<or> fst (resolve_api_key env (a_api_key a)) = Some [] \<longrightarrow>
        headers (fst (init env a)) k =
          (case (case a_default_headers a of None \<Rightarrow> None | Some kvs \<Rightarrow> map_of kvs k) of
             Some v \<Rightarrow> Some v
           | None \<Rightarrow>
               (case a_config_default_headers a of None \<Rightarrow> None | Some kvs \<Rightarrow> map_of kvs k)))"
proof (intro conjI allI impI)
  fix s assume "fst (resolve_api_key env (a_api_key a)) = Some s \<and> s \<noteq> []"
  then show "headers (fst (init env a)) ''Authorization'' = Some (JStr (''Bearer '' @ s))"
    by (simp add: headers_init build_headers_secret)
next
  fix k
  assume "k \<noteq> ''Authorization''
            \<or> fst (resolve_api_key env (a_api_key a)) = None
            \<or> fst (resolve_api_key env (a_api_key a)) = Some []"
  then have "headers (fst (init env a)) k
               = update_with (update_with Map.empty (a_config_default_headers a))
                   (a_default_headers a) k"
    using build_headers_other [of k "a_config_default_headers a" "a_default_headers a"
                                  "fst (resolve_api_key env (a_api_key a))"]
          build_headers_no_secret [of "fst (resolve_api_key env (a_api_key a))"
                                      "a_config_default_headers a" "a_default_headers a"]
    by (auto simp: headers_init)
  then show "headers (fst (init env a)) k =
          (case (case a_default_headers a of None \<Rightarrow> None | Some kvs \<Rightarrow> map_of kvs k) of
             Some v \<Rightarrow> Some v
           | None \<Rightarrow>
               (case a_config_default_headers a of None \<Rightarrow> None | Some kvs \<Rightarrow> map_of kvs k))"
    by (simp only: update_with_lookup)
qed

text \<open>A file and a caller that both set \<^verbatim>\<open>Authorization\<close> and \<^verbatim>\<open>X-A\<close>, with a literal key.\<close>

theorem header_assembly_order_witness:
  "fst (resolve_api_key Map.empty (a_api_key ex_header_args)) = Some ''sk-1''
   \<and> headers (fst (init Map.empty ex_header_args)) ''Authorization'' = Some (JStr ''Bearer sk-1'')
   \<and> headers (fst (init Map.empty ex_header_args)) ''X-A'' = Some (JStr ''caller'')
   \<and> headers (fst (init Map.empty ex_header_args)) ''X-B'' = Some (JStr ''file'')"
  using header_assembly_order [of Map.empty ex_header_args]
  by (simp add: ex_header_args_def default_args_def resolve_api_key_def startswith_def)

section \<open>Properties of the session lifecycle\<close>

lemma close_no_stack: "exit_stack c = None \<Longrightarrow> close w c = (None, c, [])"
  by (simp add: close_def)

lemma close_empty_stack:
  "exit_stack c = Some [] \<Longrightarrow> close w c = (None, c\<lparr>exit_stack := None, mcp_client := None\<rparr>, [])"
  by (simp add: close_def)

lemma close_returns_reset:
  "fst (close w c) = None \<Longrightarrow> exit_stack c \<noteq> None \<Longrightarrow>
   exit_stack (fst (snd (close w c))) = None \<and> mcp_client (fst (snd (close w c))) = None"
  by (auto simp: close_def split: option.splits prod.splits)

lemma close_cases:
  "exit_stack (fst (snd (close w c))) = None \<and> fst (close w c) = None
   \<or> exit_stack (fst (snd (close w c))) = Some [] \<and> fst (close w c) \<noteq> None"
  by (auto simp: close_def split: option.splits prod.splits)

lemma close_raises:
  "fst (close w c) \<noteq> None \<Longrightarrow>
   exit_stack (fst (snd (close w c))) = Some []
   \<and> mcp_client (fst (snd (close w c))) = mcp_client c"
  by (auto simp: close_def split: option.splits prod.splits)

text \<open>
  C4, as the code has it. \<^verbatim>\<open>close()\<close> on a client without an exit stack (never
  initialized, or closed) raises nothing, leaves the client as it is and touches no
  resource. A \<^verbatim>\<open>close()\<close> that returns normally on a client with an exit stack has reset
  \<^verbatim>\<open>_exit_stack\<close> and \<^verbatim>\<open>_mcp_client\<close> to \<^verbatim>\<open>None\<close>, and the \<^verbatim>\<open>close()\<close> that follows it
  raises nothing, touches no resource and leaves the client as it is. A \<^verbatim>\<open>close()\<close> that
  raises (a context on the stack raised while being left) has not reset the state: the
  stack object stays, emptied, and \<^verbatim>\<open>_mcp_client\<close> keeps its value; the \<^verbatim>\<open>close()\<close> that
  follows raises nothing and touches no resource, and it is that call which resets both
  attributes.
\<close>

theorem close_idempotent:
  "(exit_stack c = None \<longrightarrow> close w c = (None, c, []))
   \<and> fst (close w (fst (snd (close w c)))) = None
   \<and> snd (snd (close w (fst (snd (close w c))))) = []
   \<and> (fst (close w c) = None \<longrightarrow>
        close w (fst (snd (close w c))) = (None, fst (snd (close w c)), []))
   \<and> (exit_stack c \<noteq> None \<and> fst (close w c) = None \<longrightarrow>
        exit_stack (fst (snd (close w c))) = None
        \<and> mcp_client (fst (snd (close w c))) = None)
   \<and> (fst (close w c) \<noteq> None \<longrightarrow>
        exit_stack (fst (snd (close w c))) = Some []
        \<and> mcp_client (fst (snd (close w c))) = mcp_client c
        \<and> close w (fst (snd (close w c)))
            = (None, (fst (snd (close w c)))\<lparr>exit_stack := None, mcp_client := None\<rparr>, []))"
proof -
  let ?c' = "fst (snd (close w c))"
  have a: "exit_stack c = None \<longrightarrow> close w c = (None, c, [])"
    by (simp add: close_no_stack)
  have b: "fst (close w ?c') = None \<and> snd (snd (close w ?c')) = []"
    using close_cases [of w c] by (auto simp: close_no_stack close_empty_stack)
  have c: "fst (close w c) = None \<longrightarrow> close w ?c' = (None, ?c', [])"
    using close_cases [of w c] by (auto simp: close_no_stack)
  have d: "exit_stack c \<noteq> None \<and> fst (close w c) = None \<longrightarrow>
        exit_stack ?c' = None \<and> mcp_client ?c' = None"
    using close_returns_reset [of w c] by blast
  have e: "fst (close w c) \<noteq> None \<longrightarrow>
        exit_stack ?c' = Some [] \<and> mcp_client ?c' = mcp_client c
        \<and> close w ?c' = (None, ?c'\<lparr>exit_stack := None, mcp_client := None\<rparr>, [])"
    using close_raises [of w c] close_empty_stack [of ?c' w] by blast
  from a b c d e show ?thesis by blast
qed

text \<open>
  \<^verbatim>\<open>close()\<close> on a fresh client; a stdio client initialized, closed (the session is
  exited before the transport, and both attributes are reset) and closed again; the same
  client closed on the machine where leaving a context raises.
\<close>

theorem close_idempotent_witness:
  "exit_stack ex_http_client = None
   \<and> close ex_world ex_http_client = (None, ex_http_client, [])
   \<and> exit_stack (fst (snd (initialize ex_world ex_stdio_client)))
       = Some [Session (StdioParams (JStr ''echo'') (JList [JStr ''hi'']) []),
               Transport (StdioParams (JStr ''echo'') (JList [JStr ''hi'']) [])]
   \<and> mcp_client (fst (snd (initialize ex_world ex_stdio_client)))
       = Some (Session (StdioParams (JStr ''echo'') (JList [JStr ''hi'']) []))
   \<and> fst (close ex_world (fst (snd (initialize ex_world ex_stdio_client)))) = None
   \<and> snd (snd (close ex_world (fst (snd (initialize ex_world ex_stdio_client)))))
       = [Exit (Session (StdioParams (JStr ''echo'') (JList [JStr ''hi'']) [])),
          Exit (Transport (StdioParams (JStr ''echo'') (JList [JStr ''hi'']) []))]
   \<and> exit_stack (fst (snd (close ex_world (fst (snd (initialize ex_world ex_stdio_client))))))
       = None
   \<and> mcp_client (fst (snd (close ex_world (fst (snd (initialize ex_world ex_stdio_client))))))
       = None
   \<and> close ex_world (fst (snd (close ex_world (fst (snd (initialize ex_world ex_stdio_client))))))
       = (None, fst (snd (close ex_world (fst (snd (initialize ex_world ex_stdio_client))))), [])
   \<and> fst (close ex_world_failing (fst (snd (initialize ex_world_failing ex_stdio_client))))
       = Some (ExternalError ''broken pipe'')
   \<and> exit_stack (fst (snd (close ex_world_failing
                               (fst (snd (initialize ex_world_failing ex_stdio_client)))))) = Some []"
  using close_idempotent [of ex_http_client ex_world]
        close_idempotent [of "fst (snd (initialize ex_world ex_stdio_client))" ex_world]
        close_idempotent [of "fst (snd (initialize ex_world_failing ex_stdio_client))" ex_world_failing]
  by (simp add: ex_http_client_def ex_stdio_client_def ex_world_def ex_world_failing_def
        init_def default_args_def resolve_api_key_def initialize_def open_session_def close_def)

text \<open>
  C4 as stated fails: a second \<^verbatim>\<open>close()\<close> is not always a no-op on a state the first
  one reset. On the machine where leaving a context raises, the first \<^verbatim>\<open>close()\<close> of an
  initialized stdio client raises and leaves the exit stack and the session assigned; the
  second \<^verbatim>\<open>close()\<close> is the call that sets both to \<^verbatim>\<open>None\<close>.
\<close>

theorem close_after_raising_close_counterexample:
  "fst (close ex_world_failing (fst (snd (initialize ex_world_failing ex_stdio_client))))
     = Some (ExternalError ''broken pipe'')
   \<and> exit_stack (fst (snd (close ex_world_failing
                               (fst (snd (initialize ex_world_failing ex_stdio_client)))))) = Some []
   \<and> mcp_client (fst (snd (close ex_world_failing
                               (fst (snd (initialize ex_world_failing ex_stdio_client))))))
       = Some (Session (StdioParams (JStr ''echo'') (JList [JStr ''hi'']) []))
   \<and> exit_stack (fst (snd (close ex_world_failing (fst (snd (close ex_world_failing
                               (fst (snd (initialize ex_world_failing ex_stdio_client))))))))) = None
   \<and> mcp_client (fst (snd (close ex_world_failing (fst (snd (close ex_world_failing
                               (fst (snd (initialize ex_world_failing ex_stdio_client))))))))) = None"
  by (simp add: ex_stdio_client_def ex_world_def ex_world_failing_def
        init_def default_args_def resolve_api_key_def initialize_def open_session_def close_def)

lemma initialize_http_fresh:
  "transport c = ''http'' \<Longrightarrow> exit_stack c = None \<Longrightarrow>
   initialize w c =
     (Some (ValueError (''HTTP transport is not supported by the official MCP library. Use ''
                        @ quoted ''sse'' @ '' instead.'')),
      c\<lparr>exit_stack := Some []\<rparr>, [])"
  by (simp add: initialize_def)

lemma initialize_unknown_fresh:
  "transport c \<noteq> ''stdio'' \<Longrightarrow> transport c \<noteq> ''sse'' \<Longrightarrow> transport c \<noteq> ''http'' \<Longrightarrow>
   exit_stack c = None \<Longrightarrow>
   initialize w c =
     (Some (ValueError (''Unsupported transport protocol: '' @ transport c)),
      c\<lparr>exit_stack := Some []\<rparr>, [])"
  by (simp add: initialize_def)

lemma initialize_sse_no_url_fresh:
  "transport c = ''sse'' \<Longrightarrow> base_url c = None \<or> base_url c = Some [] \<Longrightarrow>
   exit_stack c = None \<Longrightarrow>
   initialize w c =
     (Some (MCPConnectionError ''Base URL is required for SSE transport''),
      c\<lparr>exit_stack := Some []\<rparr>, [])"
  by (auto simp: initialize_def)

lemma initialize_with_stack: "exit_stack c \<noteq> None \<Longrightarrow> initialize w c = (None, c, [])"
  by (auto simp: initialize_def)

lemma initialize_no_open:
  "transport c \<noteq> ''stdio'' \<Longrightarrow> transport c \<noteq> ''sse'' \<Longrightarrow> snd (snd (initialize w c)) = []"
  by (auto simp: initialize_def Let_def split: option.splits)

text \<open>
  C2, as the code has it. On a client with transport \<^verbatim>\<open>"http"\<close> and no exit stack
  (never initialized, or closed since), \<^verbatim>\<open>_initialize\<close> raises \<^verbatim>\<open>ValueError\<close> with the
  message pointing to \<^verbatim>\<open>sse\<close>; on a transport label other than \<^verbatim>\<open>"stdio"\<close>,
  \<^verbatim>\<open>"sse"\<close> and \<^verbatim>\<open>"http"\<close> it raises \<^verbatim>\<open>ValueError\<close> naming the label. In every state,
  a client whose transport is neither \<^verbatim>\<open>"stdio"\<close> nor \<^verbatim>\<open>"sse"\<close> enters no transport
  and no session.
\<close>

theorem initialize_unsupported_transport:
  "(transport c = ''http'' \<and> exit_stack c = None \<longrightarrow>
      initialize w c =
        (Some (ValueError (''HTTP transport is not supported by the official MCP library. Use ''
                           @ quoted ''sse'' @ '' instead.'')),
         c\<lparr>exit_stack := Some []\<rparr>, []))
   \<and> (transport c \<noteq> ''stdio'' \<and> transport c \<noteq> ''sse'' \<and> transport c \<noteq> ''http''
        \<and> exit_stack c = None \<longrightarrow>
      initialize w c =
        (Some (ValueError (''Unsupported transport protocol: '' @ transport c)),
         c\<lparr>exit_stack := Some []\<rparr>, []))
   \<and> (transport c \<noteq> ''stdio'' \<and> transport c \<noteq> ''sse'' \<longrightarrow> snd (snd (initialize w c)) = [])"
  using initialize_http_fresh [of c w] initialize_unknown_fresh [of c w]
        initialize_no_open [of c w]
  by blast

text \<open>
  \<^verbatim>\<open>MCPClient()\<close> and a client with transport \<^verbatim>\<open>"ws"\<close>, initialized once.
\<close>

theorem initialize_unsupported_transport_witness:
  "transport ex_http_client = ''http'' \<and> exit_stack ex_http_client = None
   \<and> fst (initialize ex_world ex_http_client)
       = Some (ValueError (''HTTP transport is not supported by the official MCP library. Use ''
                           @ quoted ''sse'' @ '' instead.''))
   \<and> snd (snd (initialize ex_world ex_http_client)) = []
   \<and> fst (initialize ex_world (ex_http_client\<lparr>transport := ''ws''\<rparr>))
       = Some (ValueError ''Unsupported transport protocol: ws'')"
  using initialize_unsupported_transport [of ex_http_client ex_world]
        initialize_unsupported_transport [of "ex_http_client\<lparr>transport := ''ws''\<rparr>" ex_world]
  by (simp add: ex_http_client_def init_def default_args_def resolve_api_key_def)

text \<open>
  C2 as stated fails: not every call raises. On \<^verbatim>\<open>MCPClient()\<close> the first
  \<^verbatim>\<open>_initialize\<close> raises and leaves the exit stack assigned; the second call, on the same
  client with transport \<^verbatim>\<open>"http"\<close>, finds the stack and returns without raising.
\<close>

theorem initialize_http_second_call_counterexample:
  "transport (fst (snd (initialize ex_world ex_http_client))) = ''http''
   \<and> fst (initialize ex_world ex_http_client) \<noteq> None
   \<and> fst (initialize ex_world (fst (snd (initialize ex_world ex_http_client)))) = None"
  by (simp add: ex_http_client_def init_def default_args_def resolve_api_key_def
        initialize_def)

lemma funpow_fixed: "f x = x \<Longrightarrow> (f ^^ n) x = x"
  by (induction n) simp_all

lemma open_session_failure:
  "fst (open_session w c t) \<noteq> None \<Longrightarrow>
   (\<exists>st. exit_stack (fst (snd (open_session w c t))) = Some st \<or>
         exit_stack (fst (snd (open_session w c t))) = exit_stack c)
   \<and> mcp_client (fst (snd (open_session w c t))) = mcp_client c"
  by (simp add: open_session_def split: option.splits)

lemma initialize_failure_keeps_stack:
  assumes "exit_stack c = None" and "fst (initialize w c) \<noteq> None"
  shows "exit_stack (fst (snd (initialize w c))) \<noteq> None
         \<and> mcp_client (fst (snd (initialize w c))) = mcp_client c"
proof -
  let ?c0 = "c\<lparr>exit_stack := Some []\<rparr>"
  consider (stdio) "transport c = ''stdio''"
    | (sse_open) "transport c = ''sse''" "\<not> (base_url c = None \<or> base_url c = Some [])"
    | (sse_none) "transport c = ''sse''" "base_url c = None \<or> base_url c = Some []"
    | (other) "transport c \<noteq> ''stdio''" "transport c \<noteq> ''sse''"
    by blast
  then show ?thesis
  proof cases
    case stdio
    show ?thesis
    proof (cases "stdio_parameters w (command c) (args c)")
      case (Some e)
      with stdio assms(1) have "initialize w c = (Some e, ?c0, [])"
        by (simp add: initialize_def)
      then show ?thesis by simp
    next
      case None
      with stdio obtain t where i: "initialize w c = open_session w ?c0 t"
        using assms(1) by (simp add: initialize_def)
      with assms(2) open_session_failure [of w ?c0 t] show ?thesis by auto
    qed
  next
    case sse_open
    then obtain t where i: "initialize w c = open_session w ?c0 t"
      using assms(1) by (auto simp: initialize_def)
    with assms(2) open_session_failure [of w ?c0 t] show ?thesis by auto
  next
    case sse_none
    then show ?thesis
      using assms(1) initialize_sse_no_url_fresh [of c w] by simp
  next
    case other
    then show ?thesis
      using assms(1) initialize_http_fresh [of c w] initialize_unknown_fresh [of c w]
      by (cases "transport c = ''http''") simp_all
  qed
qed

text \<open>
  C9. When \<^verbatim>\<open>_initialize\<close> raises on a client that had no exit stack, the exit stack
  is assigned afterwards and \<^verbatim>\<open>_mcp_client\<close> is what it was (\<^verbatim>\<open>None\<close> on a fresh or closed
  client); the next call, and every call after it, returns without raising, without
  entering anything and without changing the client. Transport \<^verbatim>\<open>"http"\<close>, an
  unrecognized transport and \<^verbatim>\<open>"sse"\<close> without a base URL are such failures; they leave
  an empty stack, and \<^verbatim>\<open>close()\<close> then resets both attributes to \<^verbatim>\<open>None\<close>. After any
  failure, a \<^verbatim>\<open>close()\<close> that returns has reset both attributes.
\<close>

theorem failed_initialize_not_rolled_back:
  "(exit_stack c = None \<and> fst (initialize w c) \<noteq> None \<longrightarrow>
      exit_stack (fst (snd (initialize w c))) \<noteq> None
      \<and> mcp_client (fst (snd (initialize w c))) = mcp_client c
      \<and> initialize w (fst (snd (initialize w c))) = (None, fst (snd (initialize w c)), [])
      \<and> (\<forall>n. ((\<lambda>s. fst (snd (initialize w s))) ^^ n) (fst (snd (initialize w c)))
               = fst (snd (initialize w c)))
      \<and> (fst (close w (fst (snd (initialize w c)))) = None \<longrightarrow>
            exit_stack (fst (snd (close w (fst (snd (initialize w c)))))) = None
            \<and> mcp_client (fst (snd (close w (fst (snd (initialize w c)))))) = None))
   \<and> (exit_stack c = None
        \<and> (transport c = ''http''
            \<or> (transport c \<noteq> ''stdio'' \<and> transport c \<noteq> ''sse'')
            \<or> (transport c = ''sse'' \<and> (base_url c = None \<or> base_url c = Some []))) \<longrightarrow>
      fst (initialize w c) \<noteq> None
      \<and> fst (snd (initialize w c)) = c\<lparr>exit_stack := Some []\<rparr>
      \<and> close w (fst (snd (initialize w c)))
          = (None, c\<lparr>exit_stack := None, mcp_client := None\<rparr>, []))"
proof (intro conjI impI)
  let ?c' = "fst (snd (initialize w c))"
  assume h: "exit_stack c = None \<and> fst (initialize w c) \<noteq> None"
  then show s: "exit_stack ?c' \<noteq> None" and "mcp_client ?c' = mcp_client c"
    using initialize_failure_keeps_stack [of c w] by simp_all
  then show i: "initialize w ?c' = (None, ?c', [])"
    by (simp add: initialize_with_stack)
  then have "(\<lambda>s. fst (snd (initialize w s))) ?c' = ?c'"
    by simp
  then show "\<forall>n. ((\<lambda>s. fst (snd (initialize w s))) ^^ n) ?c' = ?c'"
    using funpow_fixed [of "\<lambda>s. fst (snd (initialize w s))" ?c'] by blast
  assume "fst (close w ?c') = None"
  then show "exit_stack (fst (snd (close w ?c'))) = None"
    and "mcp_client (fst (snd (close w ?c'))) = None"
    using s close_returns_reset [of w ?c'] by simp_all
next
  assume h: "exit_stack c = None
        \<and> (transport c = ''http''
            \<or> (transport c \<noteq> ''stdio'' \<and> transport c \<noteq> ''sse'')
            \<or> (transport c = ''sse'' \<and> (base_url c = None \<or> base_url c = Some [])))"
  then have r: "fst (initialize w c) \<noteq> None \<and> fst (snd (initialize w c)) = c\<lparr>exit_stack := Some []\<rparr>"
    using initialize_http_fresh [of c w] initialize_unknown_fresh [of c w]
          initialize_sse_no_url_fresh [of c w]
    by (cases "transport c = ''http''") auto
  then show "fst (initialize w c) \<noteq> None" and "fst (snd (initialize w c)) = c\<lparr>exit_stack := Some []\<rparr>"
    by simp_all
  show "close w (fst (snd (initialize w c)))
          = (None, c\<lparr>exit_stack := None, mcp_client := None\<rparr>, [])"
    using r close_empty_stack [of "c\<lparr>exit_stack := Some []\<rparr>" w] by simp
qed

text \<open>
  \<^verbatim>\<open>MCPClient()\<close>: initialized (raises), initialized again (returns), closed.
\<close>

theorem failed_initialize_not_rolled_back_witness:
  "exit_stack ex_http_client = None \<and> transport ex_http_client = ''http''
   \<and> fst (initialize ex_world ex_http_client) \<noteq> None
   \<and> exit_stack (fst (snd (initialize ex_world ex_http_client))) = Some []
   \<and> mcp_client (fst (snd (initialize ex_world ex_http_client))) = None
   \<and> initialize ex_world (fst (snd (initialize ex_world ex_http_client)))
       = (None, fst (snd (initialize ex_world ex_http_client)), [])
   \<and> exit_stack (fst (snd (close ex_world (fst (snd (initialize ex_world ex_http_client))))))
       = None"
  using failed_initialize_not_rolled_back [of ex_http_client ex_world]
  by (simp add: ex_http_client_def init_def default_args_def resolve_api_key_def
        initialize_def close_def)

section \<open>Properties of the configuration loader\<close>

lemma potential_paths_explicit: "p \<noteq> [] \<Longrightarrow> potential_paths w (Some p) = [resolve w p]"
  by (simp add: potential_paths_def)

lemma find_config_file_explicit:
  "p \<noteq> [] \<Longrightarrow>
   find_config_file w (Some p) =
     (if is_file w (resolve w p) = Some True then Some (resolve w p) else None)"
  by (simp add: find_config_file_def potential_paths_explicit)

lemma from_config_not_found:
  "find_config_file w config_path = None \<Longrightarrow>
   from_config w server_name config_path kwargs =
     Inl (FileNotFoundError
            (''MCP configuration file not found at ''
             @ quoted (case config_path of None \<Rightarrow> ''None'' | Some p \<Rightarrow> p)
             @ '' or in standard locations.''))"
  by (simp add: from_config_def load_config_def)

text \<open>
  C8. When a path is given (a non-empty string: line 147 tests \<^verbatim>\<open>if config_path\<close>), the
  resolved path is the only candidate. An existing file there is the result; otherwise
  the locator returns \<^verbatim>\<open>None\<close>, whatever lies at the standard locations, and
  \<^verbatim>\<open>from_config\<close> raises \<^verbatim>\<open>FileNotFoundError\<close>.
\<close>

theorem explicit_config_path_only:
  "p \<noteq> [] \<longrightarrow>
     potential_paths w (Some p) = [resolve w p]
     \<and> (is_file w (resolve w p) = Some True \<longrightarrow> find_config_file w (Some p) = Some (resolve w p))
     \<and> (is_file w (resolve w p) \<noteq> Some True \<longrightarrow>
          find_config_file w (Some p) = None
          \<and> from_config w server_name (Some p) kwargs =
              Inl (FileNotFoundError (''MCP configuration file not found at '' @ quoted p
                                      @ '' or in standard locations.'')))"
  using from_config_not_found [of w "Some p" server_name kwargs]
  by (simp add: potential_paths_explicit find_config_file_explicit)

lemma ex_standard_paths:
  "standard_paths ex_world = [''/work/mcp.json'', ''/home/u/.mcp.json'', ''/home/u/.config/mcp/mcp.json'']"
  by (simp add: standard_paths_def ex_world_def path_join_def DEFAULT_CONFIG_FILENAME_def)

lemma ex_find_default: "find_config_file ex_world None = Some ''/work/mcp.json''"
  by (simp add: find_config_file_def potential_paths_def ex_standard_paths)
     (simp add: ex_world_def)

text \<open>
  On the example machine the search finds \<^verbatim>\<open>/work/mcp.json\<close>, and the explicit path
  \<^verbatim>\<open>nope.json\<close> is not found all the same.
\<close>

theorem explicit_config_path_only_witness:
  "''nope.json'' \<noteq> []
   \<and> is_file ex_world (resolve ex_world ''nope.json'') \<noteq> Some True
   \<and> find_config_file ex_world None = Some ''/work/mcp.json''
   \<and> find_config_file ex_world (Some ''nope.json'') = None
   \<and> from_config ex_world None (Some ''nope.json'') no_kwargs =
       Inl (FileNotFoundError (''MCP configuration file not found at '' @ quoted ''nope.json''
                               @ '' or in standard locations.''))
   \<and> find_config_file ex_world (Some ''/etc/bad.json'') = Some ''/etc/bad.json''"
  using explicit_config_path_only [of "''nope.json''" ex_world None no_kwargs]
        explicit_config_path_only [of "''/etc/bad.json''" ex_world None no_kwargs]
        ex_find_default
  by (simp add: ex_world_def startswith_def)

lemma from_config_load_error:
  "load_config w config_path = Inl e \<Longrightarrow> from_config w server_name config_path kwargs = Inl e"
  by (simp add: from_config_def)

text \<open>
  C7. When the located file is not valid JSON, \<^verbatim>\<open>from_config\<close> raises \<^verbatim>\<open>MCPDataError\<close>
  and the message contains the path of the file. When the file cannot be read it raises
  \<^verbatim>\<open>OSError\<close>, which is not the data-format class.
\<close>

theorem malformed_json_data_format:
  "find_config_file w config_path = Some found \<longrightarrow>
     (load_json w found = JSONDecodeError e \<longrightarrow>
        from_config w server_name config_path kwargs =
          Inl (MCPDataError (''Invalid JSON in configuration file '' @ quoted found @ '': '' @ e))
        \<and> (\<exists>pre post. from_config w server_name config_path kwargs
                          = Inl (MCPDataError (pre @ found @ post)))
        \<and> data_format (projl (from_config w server_name config_path kwargs)))
     \<and> (load_json w found = ReadOSError e \<longrightarrow>
        from_config w server_name config_path kwargs =
          Inl (OSError (''Could not read configuration file '' @ quoted found @ '': '' @ e))
        \<and> \<not> data_format (projl (from_config w server_name config_path kwargs)))"
proof (intro impI conjI)
  assume f: "find_config_file w config_path = Some found"
  {
    assume "load_json w found = JSONDecodeError e"
    with f have "load_config w config_path =
          Inl (MCPDataError (''Invalid JSON in configuration file '' @ quoted found @ '': '' @ e))"
      by (simp add: load_config_def)
    then show r: "from_config w server_name config_path kwargs =
          Inl (MCPDataError (''Invalid JSON in configuration file '' @ quoted found @ '': '' @ e))"
      by (rule from_config_load_error)
    have "''Invalid JSON in configuration file '' @ quoted found @ '': '' @ e
            = (''Invalid JSON in configuration file '' @ [CHR 0x27]) @ found @ ([CHR 0x27] @ '': '' @ e)"
      by (simp add: quoted_def)
    with r show "\<exists>pre post. from_config w server_name config_path kwargs
                          = Inl (MCPDataError (pre @ found @ post))"
      by metis
    from r show "data_format (projl (from_config w server_name config_path kwargs))"
      by (simp add: data_format_def)
  }
  {
    assume "load_json w found = ReadOSError e"
    with f have "load_config w config_path =
          Inl (OSError (''Could not read configuration file '' @ quoted found @ '': '' @ e))"
      by (simp add: load_config_def)
    then show r: "from_config w server_name config_path kwargs =
          Inl (OSError (''Could not read configuration file '' @ quoted found @ '': '' @ e))"
      by (rule from_config_load_error)
    then show "\<not> data_format (projl (from_config w server_name config_path kwargs))"
      by (simp add: data_format_def)
  }
qed

lemma ex_find_bad: "find_config_file ex_world (Some ''/etc/bad.json'') = Some ''/etc/bad.json''"
  by (simp add: find_config_file_explicit) (simp add: ex_world_def startswith_def)

lemma ex_find_locked:
  "find_config_file ex_world (Some ''/etc/locked.json'') = Some ''/etc/locked.json''"
  by (simp add: find_config_file_explicit) (simp add: ex_world_def startswith_def)

text \<open>
  The file \<^verbatim>\<open>/etc/bad.json\<close>, which is not JSON, and \<^verbatim>\<open>/etc/locked.json\<close>, which cannot
  be read.
\<close>

theorem malformed_json_data_format_witness:
  "find_config_file ex_world (Some ''/etc/bad.json'') = Some ''/etc/bad.json''
   \<and> load_json ex_world ''/etc/bad.json'' = JSONDecodeError ''Expecting value''
   \<and> from_config ex_world None (Some ''/etc/bad.json'') no_kwargs =
       Inl (MCPDataError (''Invalid JSON in configuration file '' @ quoted ''/etc/bad.json''
                          @ '': Expecting value''))
   \<and> find_config_file ex_world (Some ''/etc/locked.json'') = Some ''/etc/locked.json''
   \<and> load_json ex_world ''/etc/locked.json'' = ReadOSError ''Permission denied''
   \<and> from_config ex_world None (Some ''/etc/locked.json'') no_kwargs =
       Inl (OSError (''Could not read configuration file '' @ quoted ''/etc/locked.json''
                     @ '': Permission denied''))"
  using malformed_json_data_format [of ex_world "Some ''/etc/bad.json''" "''/etc/bad.json''"
                                       "''Expecting value''" None no_kwargs]
        malformed_json_data_format [of ex_world "Some ''/etc/locked.json''" "''/etc/locked.json''"
                                       "''Permission denied''" None no_kwargs]
        ex_find_bad ex_find_locked
  by (simp add: ex_world_def)

lemma from_config_target_error:
  "load_config w config_path = Inr (found, config_data) \<Longrightarrow>
   target_server found server_name config_data = Inl e \<Longrightarrow>
   from_config w server_name config_path kwargs = Inl e"
  by (simp add: from_config_def)

lemma from_config_entry_error:
  "load_config w config_path = Inr (found, config_data) \<Longrightarrow>
   target_server found server_name config_data = Inr t \<Longrightarrow>
   server_entry found config_data t = Inl e \<Longrightarrow>
   from_config w server_name config_path kwargs = Inl e"
  by (simp add: from_config_def)

lemma from_config_entry:
  "load_config w config_path = Inr (found, config_data) \<Longrightarrow>
   target_server found server_name config_data = Inr t \<Longrightarrow>
   server_entry found config_data t = Inr sc \<Longrightarrow>
   from_config w server_name config_path kwargs =
     (case transport_fields t sc of
        Inl e \<Rightarrow> Inl e
      | Inr (u, tr, cmd, ar) \<Rightarrow>
          Inr (fst (init (environ w) (init_kwargs sc u tr cmd ar kwargs))))"
  by (simp add: from_config_def)

lemma target_explicit:
  "s \<noteq> [] \<Longrightarrow> target_server found (Some s) config_data = Inr (JStr s)"
  by (simp add: target_server_def)

lemma target_default:
  "server_name = None \<or> server_name = Some [] \<Longrightarrow>
   target_server found server_name config_data = default_target found config_data"
  by (auto simp: target_server_def)

lemma default_target_key:
  "truthy (obj_get conf ''default_server'') \<Longrightarrow>
   default_target found (JObj conf) = Inr (obj_get conf ''default_server'')"
  by (simp add: default_target_def)

lemma default_target_literal:
  "\<not> truthy (obj_get conf ''default_server'') \<Longrightarrow>
   map_of conf ''servers'' = Some (JObj svs) \<Longrightarrow> ''default'' \<in> fst ` set svs \<Longrightarrow>
   default_target found (JObj conf) = Inr (JStr ''default'')"
  by (simp add: default_target_def)

lemma default_target_none:
  "\<not> truthy (obj_get conf ''default_server'') \<Longrightarrow>
   map_of conf ''servers'' = None
     \<or> (\<exists>svs. map_of conf ''servers'' = Some (JObj svs) \<and> ''default'' \<notin> fst ` set svs) \<Longrightarrow>
   default_target found (JObj conf) =
     Inl (ValueError (''No server_name specified and no '' @ quoted ''default_server''
                      @ '' key or '' @ quoted ''default'' @ '' server found in ''
                      @ quoted found @ ''.''))"
  by (auto simp: default_target_def)

lemma server_entry_no_servers:
  "\<not> is_dict (obj_get conf ''servers'') \<Longrightarrow>
   server_entry found (JObj conf) t =
     Inl (MCPDataError (''Missing or invalid '' @ quoted ''servers''
                        @ '' dictionary in '' @ quoted found @ ''.''))"
  by (cases "obj_get conf ''servers''") (simp_all add: server_entry_def)

lemma server_entry_missing:
  "obj_get conf ''servers'' = JObj svs \<Longrightarrow> \<not> is_dict (obj_get svs s) \<Longrightarrow>
   server_entry found (JObj conf) (JStr s) =
     Inl (KeyError (''Server configuration '' @ quoted s
                    @ '' not found or is not a valid dictionary in '' @ quoted found @ ''.''))"
  by (cases "obj_get svs s") (simp_all add: server_entry_def)

lemma server_entry_scalar:
  "obj_get conf ''servers'' = JObj svs \<Longrightarrow> (\<exists>n. t = JNum n) \<or> (\<exists>b. t = JBool b) \<Longrightarrow>
   server_entry found (JObj conf) t =
     Inl (KeyError (''Server configuration '' @ quoted (py_str t)
                    @ '' not found or is not a valid dictionary in '' @ quoted found @ ''.''))"
  by (auto simp: server_entry_def)

lemma server_entry_found:
  "obj_get conf ''servers'' = JObj svs \<Longrightarrow> obj_get svs s = JObj sc \<Longrightarrow>
   server_entry found (JObj conf) (JStr s) = Inr sc"
  by (simp add: server_entry_def)

text \<open>
  C3, as the code has it, for a configuration file that holds a JSON object. The alias
  is the \<^verbatim>\<open>server_name\<close> argument when it is given (a non-empty string), else the value
  under \<^verbatim>\<open>default_server\<close> when it is truthy, else \<^verbatim>\<open>"default"\<close> when the \<^verbatim>\<open>servers\<close>
  value is an object that has that key; when no alias is given and \<^verbatim>\<open>servers\<close> is
  missing, or is an object without that key, \<^verbatim>\<open>from_config\<close> raises \<^verbatim>\<open>ValueError\<close>
  (configuration-missing). With an alias resolved, a \<^verbatim>\<open>servers\<close> value that is missing or
  not an object raises \<^verbatim>\<open>MCPDataError\<close>, which is the data-format class and not a
  configuration-missing one. With \<^verbatim>\<open>servers\<close> an object: for a string alias, an entry
  that is missing or not an object raises \<^verbatim>\<open>KeyError\<close> (configuration-missing), and an
  entry that is an object is the one the client is built from; a number or a boolean as
  alias names no entry and raises \<^verbatim>\<open>KeyError\<close> as well.
\<close>

theorem server_alias_resolution:
  "load_config w config_path = Inr (found, JObj conf) \<longrightarrow>
     (\<forall>s. server_name = Some s \<and> s \<noteq> [] \<longrightarrow>
          target_server found server_name (JObj conf) = Inr (JStr s))
     \<and> ((server_name = None \<or> server_name = Some [])
          \<and> truthy (obj_get conf ''default_server'') \<longrightarrow>
          target_server found server_name (JObj conf) = Inr (obj_get conf ''default_server''))
     \<and> (\<forall>svs. (server_name = None \<or> server_name = Some [])
          \<and> \<not> truthy (obj_get conf ''default_server'')
          \<and> map_of conf ''servers'' = Some (JObj svs) \<and> ''default'' \<in> fst ` set svs \<longrightarrow>
          target_server found server_name (JObj conf) = Inr (JStr ''default''))
     \<and> ((server_name = None \<or> server_name = Some [])
          \<and> \<not> truthy (obj_get conf ''default_server'')
          \<and> (map_of conf ''servers'' = None
              \<or> (\<exists>svs. map_of conf ''servers'' = Some (JObj svs)
                        \<and> ''default'' \<notin> fst ` set svs)) \<longrightarrow>
          from_config w server_name config_path kwargs =
            Inl (ValueError (''No server_name specified and no '' @ quoted ''default_server''
                             @ '' key or '' @ quoted ''default'' @ '' server found in ''
                             @ quoted found @ ''.''))
          \<and> configuration_missing (projl (from_config w server_name config_path kwargs)))
     \<and> (\<forall>t. target_server found server_name (JObj conf) = Inr t
          \<and> \<not> is_dict (obj_get conf ''servers'') \<longrightarrow>
          from_config w server_name config_path kwargs =
            Inl (MCPDataError (''Missing or invalid '' @ quoted ''servers''
                               @ '' dictionary in '' @ quoted found @ ''.''))
          \<and> data_format (projl (from_config w server_name config_path kwargs))
          \<and> \<not> configuration_missing (projl (from_config w server_name config_path kwargs)))
     \<and> (\<forall>s svs. target_server found server_name (JObj conf) = Inr (JStr s)
          \<and> obj_get conf ''servers'' = JObj svs \<and> \<not> is_dict (obj_get svs s) \<longrightarrow>
          from_config w server_name config_path kwargs =
            Inl (KeyError (''Server configuration '' @ quoted s
                           @ '' not found or is not a valid dictionary in ''
                           @ quoted found @ ''.''))
          \<and> configuration_missing (projl (from_config w server_name config_path kwargs)))
     \<and> (\<forall>t svs. target_server found server_name (JObj conf) = Inr t
          \<and> obj_get conf ''servers'' = JObj svs
          \<and> ((\<exists>n. t = JNum n) \<or> (\<exists>b. t = JBool b)) \<longrightarrow>
          from_config w server_name config_path kwargs =
            Inl (KeyError (''Server configuration '' @ quoted (py_str t)
                           @ '' not found or is not a valid dictionary in ''
                           @ quoted found @ ''.''))
          \<and> configuration_missing (projl (from_config w server_name config_path kwargs)))
     \<and> (\<forall>s svs sc. target_server found server_name (JObj conf) = Inr (JStr s)
          \<and> obj_get conf ''servers'' = JObj svs \<and> obj_get svs s = JObj sc \<longrightarrow>
          from_config w server_name config_path kwargs =
            (case transport_fields (JStr s) sc of
               Inl e \<Rightarrow> Inl e
             | Inr (u, tr, cmd, ar) \<Rightarrow>
                 Inr (fst (init (environ w) (init_kwargs sc u tr cmd ar kwargs)))))"
proof (intro impI conjI allI)
  assume l: "load_config w config_path = Inr (found, JObj conf)"
  {
    fix s assume "server_name = Some s \<and> s \<noteq> []"
    then show "target_server found server_name (JObj conf) = Inr (JStr s)"
      by (simp add: target_explicit)
  }
  {
    assume "(server_name = None \<or> server_name = Some [])
          \<and> truthy (obj_get conf ''default_server'')"
    then show "target_server found server_name (JObj conf) = Inr (obj_get conf ''default_server'')"
      by (simp add: target_default default_target_key)
  }
  {
    fix svs
    assume "(server_name = None \<or> server_name = Some [])
          \<and> \<not> truthy (obj_get conf ''default_server'')
          \<and> map_of conf ''servers'' = Some (JObj svs) \<and> ''default'' \<in> fst ` set svs"
    then show "target_server found server_name (JObj conf) = Inr (JStr ''default'')"
      by (simp add: target_default default_target_literal)
  }
  {
    assume h: "(server_name = None \<or> server_name = Some [])
          \<and> \<not> truthy (obj_get conf ''default_server'')
          \<and> (map_of conf ''servers'' = None
              \<or> (\<exists>svs. map_of conf ''servers'' = Some (JObj svs)
                        \<and> ''default'' \<notin> fst ` set svs))"
    then have "target_server found server_name (JObj conf) =
            Inl (ValueError (''No server_name specified and no '' @ quoted ''default_server''
                             @ '' key or '' @ quoted ''default'' @ '' server found in ''
                             @ quoted found @ ''.''))"
      using default_target_none [of conf found] by (simp add: target_default)
    with l show r: "from_config w server_name config_path kwargs =
            Inl (ValueError (''No server_name specified and no '' @ quoted ''default_server''
                             @ '' key or '' @ quoted ''default'' @ '' server found in ''
                             @ quoted found @ ''.''))"
      by (rule from_config_target_error)
    then show "configuration_missing (projl (from_config w server_name config_path kwargs))"
      by (simp add: configuration_missing_def)
  }
  {
    fix t
    assume h: "target_server found server_name (JObj conf) = Inr t
          \<and> \<not> is_dict (obj_get conf ''servers'')"
    then have "server_entry found (JObj conf) t =
            Inl (MCPDataError (''Missing or invalid '' @ quoted ''servers''
                               @ '' dictionary in '' @ quoted found @ ''.''))"
      by (simp add: server_entry_no_servers)
    with l h show r: "from_config w server_name config_path kwargs =
            Inl (MCPDataError (''Missing or invalid '' @ quoted ''servers''
                               @ '' dictionary in '' @ quoted found @ ''.''))"
      using from_config_entry_error by blast
    then show "data_format (projl (from_config w server_name config_path kwargs))"
      and "\<not> configuration_missing (projl (from_config w server_name config_path kwargs))"
      by (simp_all add: data_format_def configuration_missing_def)
  }
  {
    fix s svs
    assume h: "target_server found server_name (JObj conf) = Inr (JStr s)
          \<and> obj_get conf ''servers'' = JObj svs \<and> \<not> is_dict (obj_get svs s)"
    then have "server_entry found (JObj conf) (JStr s) =
            Inl (KeyError (''Server configuration '' @ quoted s
                           @ '' not found or is not a valid dictionary in ''
                           @ quoted found @ ''.''))"
      by (simp add: server_entry_missing)
    with l h show r: "from_config w server_name config_path kwargs =
            Inl (KeyError (''Server configuration '' @ quoted s
                           @ '' not found or is not a valid dictionary in ''
                           @ quoted found @ ''.''))"
      using from_config_entry_error by blast
    then show "configuration_missing (projl (from_config w server_name config_path kwargs))"
      by (simp add: configuration_missing_def)
  }
  {
    fix t svs
    assume h: "target_server found server_name (JObj conf) = Inr t
          \<and> obj_get conf ''servers'' = JObj svs
          \<and> ((\<exists>n. t = JNum n) \<or> (\<exists>b. t = JBool b))"
    then have "server_entry found (JObj conf) t =
            Inl (KeyError (''Server configuration '' @ quoted (py_str t)
                           @ '' not found or is not a valid dictionary in ''
                           @ quoted found @ ''.''))"
      using server_entry_scalar [of conf svs t found] by blast
    with l h show r: "from_config w server_name config_path kwargs =
            Inl (KeyError (''Server configuration '' @ quoted (py_str t)
                           @ '' not found or is not a valid dictionary in ''
                           @ quoted found @ ''.''))"
      using from_config_entry_error by blast
    then show "configuration_missing (projl (from_config w server_name config_path kwargs))"
      by (simp add: configuration_missing_def)
  }
  {
    fix s svs sc
    assume h: "target_server found server_name (JObj conf) = Inr (JStr s)
          \<and> obj_get conf ''servers'' = JObj svs \<and> obj_get svs s = JObj sc"
    then have "server_entry found (JObj conf) (JStr s) = Inr sc"
      by (simp add: server_entry_found)
    with l h show "from_config w server_name config_path kwargs =
            (case transport_fields (JStr s) sc of
               Inl e \<Rightarrow> Inl e
             | Inr (u, tr, cmd, ar) \<Rightarrow>
                 Inr (fst (init (environ w) (init_kwargs sc u tr cmd ar kwargs))))"
      using from_config_entry by blast
  }
qed

lemma ex_load_default:
  "load_config ex_world None = Inr (''/work/mcp.json'', ex_config)"
  by (simp add: load_config_def find_config_file_def potential_paths_def standard_paths_def
        path_join_def DEFAULT_CONFIG_FILENAME_def ex_world_def)

lemma py_str_five: "py_str (JNum 5) = ''5''"
  by code_simp

lemma ex_load_numeric:
  "load_config ex_world_numeric None
     = Inr (''/work/mcp.json'', JObj [(''default_server'', JNum 5), (''servers'', JObj [])])"
  by (simp add: load_config_def find_config_file_def potential_paths_def standard_paths_def
        path_join_def DEFAULT_CONFIG_FILENAME_def ex_world_def ex_world_numeric_def)

lemma ex_load_empty:
  "load_config ex_world_empty None = Inr (''/work/mcp.json'', JObj [])"
  by (simp add: load_config_def find_config_file_def potential_paths_def standard_paths_def
        path_join_def DEFAULT_CONFIG_FILENAME_def ex_world_def ex_world_empty_def)

text \<open>
  The example file with \<^verbatim>\<open>server_name="b"\<close>, without a name and with the unknown name
  \<^verbatim>\<open>"zz"\<close>; the file \<^verbatim>\<open>{}\<close> without a name and with \<^verbatim>\<open>server_name="a"\<close>; the file
  whose \<^verbatim>\<open>default_server\<close> is the number 5.
\<close>

theorem server_alias_resolution_witness:
  "load_config ex_world None = Inr (''/work/mcp.json'', JObj ex_conf)
   \<and> target_server ''/work/mcp.json'' (Some ''b'') (JObj ex_conf) = Inr (JStr ''b'')
   \<and> target_server ''/work/mcp.json'' None (JObj ex_conf) = Inr (JStr ''a'')
   \<and> from_config ex_world (Some ''zz'') None no_kwargs =
       Inl (KeyError (''Server configuration '' @ quoted ''zz''
                      @ '' not found or is not a valid dictionary in ''
                      @ quoted ''/work/mcp.json'' @ ''.''))
   \<and> load_config ex_world_empty None = Inr (''/work/mcp.json'', JObj [])
   \<and> from_config ex_world_empty None None no_kwargs =
       Inl (ValueError (''No server_name specified and no '' @ quoted ''default_server''
                        @ '' key or '' @ quoted ''default'' @ '' server found in ''
                        @ quoted ''/work/mcp.json'' @ ''.''))
   \<and> from_config ex_world_empty (Some ''a'') None no_kwargs =
       Inl (MCPDataError (''Missing or invalid '' @ quoted ''servers''
                          @ '' dictionary in '' @ quoted ''/work/mcp.json'' @ ''.''))
   \<and> from_config ex_world_numeric None None no_kwargs =
       Inl (KeyError (''Server configuration '' @ quoted ''5''
                      @ '' not found or is not a valid dictionary in ''
                      @ quoted ''/work/mcp.json'' @ ''.''))"
  using server_alias_resolution [of ex_world None "''/work/mcp.json''" ex_conf "Some ''b''" no_kwargs]
        server_alias_resolution [of ex_world None "''/work/mcp.json''" ex_conf None no_kwargs]
        server_alias_resolution [of ex_world None "''/work/mcp.json''" ex_conf "Some ''zz''" no_kwargs]
        server_alias_resolution [of ex_world_empty None "''/work/mcp.json''" "[]" None no_kwargs]
        server_alias_resolution [of ex_world_empty None "''/work/mcp.json''" "[]" "Some ''a''" no_kwargs]
        server_alias_resolution [of ex_world_numeric None "''/work/mcp.json''"
                                    "[(''default_server'', JNum 5), (''servers'', JObj [])]"
                                    None no_kwargs]
        ex_load_default ex_load_empty ex_load_numeric
  by (simp add: ex_config_def ex_conf_def obj_get_def target_server_def default_target_def
        py_str_five del: py_str.simps)

text \<open>
  C3 as stated fails: with the file \<^verbatim>\<open>{}\<close> and \<^verbatim>\<open>server_name="a"\<close> the \<^verbatim>\<open>servers\<close> map is
  absent, and \<^verbatim>\<open>from_config\<close> raises \<^verbatim>\<open>MCPDataError\<close> (line 224), the exception of
  malformed JSON, not a configuration-missing one.
\<close>

theorem servers_missing_counterexample:
  "from_config ex_world_empty (Some ''a'') None no_kwargs =
     Inl (MCPDataError (''Missing or invalid '' @ quoted ''servers''
                        @ '' dictionary in '' @ quoted ''/work/mcp.json'' @ ''.''))
   \<and> \<not> configuration_missing (projl (from_config ex_world_empty (Some ''a'') None no_kwargs))"
  using ex_load_empty
  by (simp add: from_config_def target_server_def server_entry_def obj_get_def
        configuration_missing_def)

lemma from_config_Inr:
  assumes "from_config w server_name config_path kwargs = Inr c"
  shows "\<exists>found config_data t sc u tr cmd ar.
           load_config w config_path = Inr (found, config_data)
           \<and> target_server found server_name config_data = Inr t
           \<and> server_entry found config_data t = Inr sc
           \<and> transport_fields t sc = Inr (u, tr, cmd, ar)
           \<and> c = fst (init (environ w) (init_kwargs sc u tr cmd ar kwargs))"
proof -
  obtain found config_data where l: "load_config w config_path = Inr (found, config_data)"
    using assms by (cases "load_config w config_path") (auto simp: from_config_def)
  obtain t where t: "target_server found server_name config_data = Inr t"
    using assms l by (cases "target_server found server_name config_data")
                     (auto simp: from_config_def)
  obtain sc where sc: "server_entry found config_data t = Inr sc"
    using assms l t by (cases "server_entry found config_data t") (auto simp: from_config_def)
  obtain u tr cmd ar where f: "transport_fields t sc = Inr (u, tr, cmd, ar)"
    using assms l t sc by (cases "transport_fields t sc") (auto simp: from_config_def)
  have "c = fst (init (environ w) (init_kwargs sc u tr cmd ar kwargs))"
    using assms l t sc f by (simp add: from_config_def)
  with l t sc f show ?thesis by blast
qed

lemma from_config_isl_kwargs:
  "isl (from_config w server_name config_path kwargs)
     = isl (from_config w server_name config_path kwargs')"
  by (simp add: from_config_def split: sum.splits prod.splits)

lemma init_fields:
  "transport (fst (init env a)) = a_transport a"
  "command (fst (init env a)) = a_command a"
  "args (fst (init env a)) = (if truthy (a_args a) then a_args a else JList [])"
  "timeout (fst (init env a)) = a_timeout a"
  "default_parameters (fst (init env a))
     = update_with (update_with Map.empty (a_config_default_parameters a))
         (a_default_parameters a)"
  by (simp_all add: init_def split: prod.splits)

lemma update_with_given:
  "map_of v k = Some x \<Longrightarrow> update_with d (Some v) k = Some x"
  by (simp add: update_with_def map_add_def)

text \<open>
  C1, as the code has it. Whenever \<^verbatim>\<open>from_config\<close> returns a client: an override of
  \<^verbatim>\<open>transport\<close>, \<^verbatim>\<open>command\<close> or \<^verbatim>\<open>args\<close> other than \<^verbatim>\<open>None\<close> is the client's value; so
  is an override of \<^verbatim>\<open>timeout\<close> other than \<^verbatim>\<open>None\<close> and \<open>0\<close>; an override of
  \<^verbatim>\<open>base_url\<close> is stored without its trailing slashes, the empty string as \<^verbatim>\<open>None\<close>;
  the entries of a \<^verbatim>\<open>default_parameters\<close> or \<^verbatim>\<open>default_headers\<close> override are in the
  client's mapping (for headers, on every key but \<^verbatim>\<open>Authorization\<close>). An \<^verbatim>\<open>api_key\<close>
  override takes the place of the file's key and is resolved as the constructor resolves
  a key: a non-empty literal is the bearer token; \<^verbatim>\<open>env:NAME\<close> gives the non-empty value
  of the variable as bearer token; the empty string, and \<^verbatim>\<open>env:NAME\<close> with the variable
  unset or empty, give no synthesized header, so that the headers are the file's
  \<^verbatim>\<open>default_headers\<close> updated by the caller's. None of this depends on what the file gives
  for the field. Without a \<^verbatim>\<open>timeout\<close> override and with no truthy \<^verbatim>\<open>timeout\<close> in the
  entry, the timeout is 60. Whether a client is returned at all does not depend on the
  overrides: the entry of the file is validated before they are read.
\<close>

theorem override_precedence:
  "from_config w server_name config_path kwargs = Inr c \<longrightarrow>
     (\<forall>v. kw_transport kwargs = Given (Some v) \<longrightarrow> transport c = v)
     \<and> (\<forall>v. kw_command kwargs = Given (Some v) \<longrightarrow> command c = JStr v)
     \<and> (\<forall>v. kw_args kwargs = Given (Some v) \<longrightarrow> args c = JList (map JStr v))
     \<and> (\<forall>v. kw_timeout kwargs = Given (Some v) \<and> v \<noteq> 0 \<longrightarrow> timeout c = JNum v)
     \<and> (\<forall>v. kw_base_url kwargs = Given (Some v) \<longrightarrow>
            base_url c = (if v = [] then None else Some (rstrip CHR ''/'' v)))
     \<and> (\<forall>v k x. kw_default_parameters kwargs = Given (Some v) \<and> map_of v k = Some x \<longrightarrow>
            default_parameters c k = Some x)
     \<and> (\<forall>v k x. kw_default_headers kwargs = Given (Some v) \<and> map_of v k = Some x
            \<and> k \<noteq> ''Authorization'' \<longrightarrow> headers c k = Some x)
     \<and> (\<forall>v. kw_api_key kwargs = Given (Some v) \<and> v \<noteq> [] \<and> \<not> startswith v ''env:'' \<longrightarrow>
            headers c ''Authorization'' = Some (JStr (''Bearer '' @ v)))
     \<and> (\<forall>name s. kw_api_key kwargs = Given (Some (''env:'' @ name))
            \<and> environ w name = Some s \<and> s \<noteq> [] \<longrightarrow>
            headers c ''Authorization'' = Some (JStr (''Bearer '' @ s)))
     \<and> (\<forall>v found config_data t sc.
            load_config w config_path = Inr (found, config_data)
            \<and> target_server found server_name config_data = Inr t
            \<and> server_entry found config_data t = Inr sc
            \<and> kw_api_key kwargs = Given (Some v)
            \<and> (v = [] \<or> (\<exists>name. v = ''env:'' @ name
                                \<and> (environ w name = None \<or> environ w name = Some []))) \<longrightarrow>
            headers c =
              update_with (update_with Map.empty (dict_or_none (obj_get sc ''default_headers'')))
                (kwargs_get (kw_default_headers kwargs) None))
     \<and> (\<forall>found config_data t sc.
            load_config w config_path = Inr (found, config_data)
            \<and> target_server found server_name config_data = Inr t
            \<and> server_entry found config_data t = Inr sc
            \<and> kw_timeout kwargs = Absent \<and> \<not> truthy (obj_get sc ''timeout'') \<longrightarrow>
            timeout c = JNum 60)
     \<and> (\<forall>kwargs'. \<not> isl (from_config w server_name config_path kwargs'))"
proof (intro impI)
  assume ok: "from_config w server_name config_path kwargs = Inr c"
  from from_config_Inr [OF ok] obtain found config_data t sc u tr cmd ar where
    l: "load_config w config_path = Inr (found, config_data)" and
    t: "target_server found server_name config_data = Inr t" and
    sc: "server_entry found config_data t = Inr sc" and
    f: "transport_fields t sc = Inr (u, tr, cmd, ar)" and
    c: "c = fst (init (environ w) (init_kwargs sc u tr cmd ar kwargs))"
    by blast
  let ?a = "init_kwargs sc u tr cmd ar kwargs"
  have 1: "\<forall>v. kw_transport kwargs = Given (Some v) \<longrightarrow> transport c = v"
    by (simp add: c init_fields init_kwargs_def)
  have 2: "\<forall>v. kw_command kwargs = Given (Some v) \<longrightarrow> command c = JStr v"
    by (simp add: c init_fields init_kwargs_def)
  have 3: "\<forall>v. kw_args kwargs = Given (Some v) \<longrightarrow> args c = JList (map JStr v)"
    by (simp add: c init_fields init_kwargs_def)
  have 4: "\<forall>v. kw_timeout kwargs = Given (Some v) \<and> v \<noteq> 0 \<longrightarrow> timeout c = JNum v"
    by (simp add: c init_fields init_kwargs_def)
  have 5: "\<forall>v. kw_base_url kwargs = Given (Some v) \<longrightarrow>
            base_url c = (if v = [] then None else Some (rstrip CHR ''/'' v))"
    by (simp add: c base_url_init init_kwargs_def)
  have 6: "\<forall>v k x. kw_default_parameters kwargs = Given (Some v) \<and> map_of v k = Some x \<longrightarrow>
            default_parameters c k = Some x"
    by (simp add: c init_fields init_kwargs_def update_with_given)
  have 7: "\<forall>v k x. kw_default_headers kwargs = Given (Some v) \<and> map_of v k = Some x
            \<and> k \<noteq> ''Authorization'' \<longrightarrow> headers c k = Some x"
    by (simp add: c headers_init init_kwargs_def build_headers_other update_with_given)
  have 8: "\<forall>v. kw_api_key kwargs = Given (Some v) \<and> v \<noteq> [] \<and> \<not> startswith v ''env:'' \<longrightarrow>
            headers c ''Authorization'' = Some (JStr (''Bearer '' @ v))"
    by (simp add: c headers_init init_kwargs_def resolve_literal build_headers_secret)
  have env_set: "\<forall>name s. kw_api_key kwargs = Given (Some (''env:'' @ name))
            \<and> environ w name = Some s \<and> s \<noteq> [] \<longrightarrow>
            headers c ''Authorization'' = Some (JStr (''Bearer '' @ s))"
  proof (intro allI impI)
    fix name s
    assume h: "kw_api_key kwargs = Given (Some (''env:'' @ name))
            \<and> environ w name = Some s \<and> s \<noteq> []"
    then have r: "fst (resolve_api_key (environ w) (JStr (''env:'' @ name))) = Some s"
      using resolve_env_set [of "environ w" name s] by blast
    have k: "a_api_key ?a = JStr (''env:'' @ name)"
      using h by (simp add: init_kwargs_def)
    have "headers c ''Authorization''
            = build_headers (a_config_default_headers ?a) (a_default_headers ?a) (Some s)
                ''Authorization''"
      unfolding c headers_init k r ..
    with h show "headers c ''Authorization'' = Some (JStr (''Bearer '' @ s))"
      by (simp add: build_headers_secret)
  qed
  have no_secret: "\<forall>v found config_data t sc.
            load_config w config_path = Inr (found, config_data)
            \<and> target_server found server_name config_data = Inr t
            \<and> server_entry found config_data t = Inr sc
            \<and> kw_api_key kwargs = Given (Some v)
            \<and> (v = [] \<or> (\<exists>name. v = ''env:'' @ name
                                \<and> (environ w name = None \<or> environ w name = Some []))) \<longrightarrow>
            headers c =
              update_with (update_with Map.empty (dict_or_none (obj_get sc ''default_headers'')))
                (kwargs_get (kw_default_headers kwargs) None)"
  proof (intro allI impI)
    fix v found' config_data' t' sc'
    assume h: "load_config w config_path = Inr (found', config_data')
            \<and> target_server found' server_name config_data' = Inr t'
            \<and> server_entry found' config_data' t' = Inr sc'
            \<and> kw_api_key kwargs = Given (Some v)
            \<and> (v = [] \<or> (\<exists>name. v = ''env:'' @ name
                                \<and> (environ w name = None \<or> environ w name = Some [])))"
    with l t sc have same: "sc' = sc" by auto
    have "fst (resolve_api_key (environ w) (JStr v)) = None
          \<or> fst (resolve_api_key (environ w) (JStr v)) = Some []"
    proof (cases "v = []")
      case True
      then show ?thesis by (simp add: resolve_api_key_def startswith_def)
    next
      case False
      with h obtain name where "v = ''env:'' @ name"
        and "environ w name = None \<or> environ w name = Some []" by blast
      then show ?thesis
        using resolve_env_unset [of "environ w" name] by auto
    qed
    then have "headers c =
              update_with (update_with Map.empty (dict_or_none (obj_get sc ''default_headers'')))
                (kwargs_get (kw_default_headers kwargs) None)"
      using h build_headers_no_secret
              [of "fst (resolve_api_key (environ w) (JStr v))"
                  "dict_or_none (obj_get sc ''default_headers'')"
                  "kwargs_get (kw_default_headers kwargs) None"]
      by (simp add: c headers_init init_kwargs_def)
    with same show "headers c =
              update_with (update_with Map.empty (dict_or_none (obj_get sc' ''default_headers'')))
                (kwargs_get (kw_default_headers kwargs) None)"
      by simp
  qed
  have 9: "\<forall>found config_data t sc.
            load_config w config_path = Inr (found, config_data)
            \<and> target_server found server_name config_data = Inr t
            \<and> server_entry found config_data t = Inr sc
            \<and> kw_timeout kwargs = Absent \<and> \<not> truthy (obj_get sc ''timeout'') \<longrightarrow>
            timeout c = JNum 60"
    using l t sc by (auto simp: c init_fields init_kwargs_def DEFAULT_TIMEOUT_def)
  have 10: "\<forall>kwargs'. \<not> isl (from_config w server_name config_path kwargs')"
    using ok from_config_isl_kwargs [of w server_name config_path kwargs] by simp
  from 1 2 3 4 5 6 7 8 env_set no_secret 9 10 show
    "(\<forall>v. kw_transport kwargs = Given (Some v) \<longrightarrow> transport c = v)
     \<and> (\<forall>v. kw_command kwargs = Given (Some v) \<longrightarrow> command c = JStr v)
     \<and> (\<forall>v. kw_args kwargs = Given (Some v) \<longrightarrow> args c = JList (map JStr v))
     \<and> (\<forall>v. kw_timeout kwargs = Given (Some v) \<and> v \<noteq> 0 \<longrightarrow> timeout c = JNum v)
     \<and> (\<forall>v. kw_base_url kwargs = Given (Some v) \<longrightarrow>
            base_url c = (if v = [] then None else Some (rstrip CHR ''/'' v)))
     \<and> (\<forall>v k x. kw_default_parameters kwargs = Given (Some v) \<and> map_of v k = Some x \<longrightarrow>
            default_parameters c k = Some x)
     \<and> (\<forall>v k x. kw_default_headers kwargs = Given (Some v) \<and> map_of v k = Some x
            \<and> k \<noteq> ''Authorization'' \<longrightarrow> headers c k = Some x)
     \<and> (\<forall>v. kw_api_key kwargs = Given (Some v) \<and> v \<noteq> [] \<and> \<not> startswith v ''env:'' \<longrightarrow>
            headers c ''Authorization'' = Some (JStr (''Bearer '' @ v)))
     \<and> (\<forall>name s. kw_api_key kwargs = Given (Some (''env:'' @ name))
            \<and> environ w name = Some s \<and> s \<noteq> [] \<longrightarrow>
            headers c ''Authorization'' = Some (JStr (''Bearer '' @ s)))
     \<and> (\<forall>v found config_data t sc.
            load_config w config_path = Inr (found, config_data)
            \<and> target_server found server_name config_data = Inr t
            \<and> server_entry found config_data t = Inr sc
            \<and> kw_api_key kwargs = Given (Some v)
            \<and> (v = [] \<or> (\<exists>name. v = ''env:'' @ name
                                \<and> (environ w name = None \<or> environ w name = Some []))) \<longrightarrow>
            headers c =
              update_with (update_with Map.empty (dict_or_none (obj_get sc ''default_headers'')))
                (kwargs_get (kw_default_headers kwargs) None))
     \<and> (\<forall>found config_data t sc.
            load_config w config_path = Inr (found, config_data)
            \<and> target_server found server_name config_data = Inr t
            \<and> server_entry found config_data t = Inr sc
            \<and> kw_timeout kwargs = Absent \<and> \<not> truthy (obj_get sc ''timeout'') \<longrightarrow>
            timeout c = JNum 60)
     \<and> (\<forall>kwargs'. \<not> isl (from_config w server_name config_path kwargs'))"
    by blast
qed

lemma ex_from_config_a:
  "from_config ex_world None None kwargs =
     Inr (fst (init (environ ex_world)
            (init_kwargs [(''transport'', JStr ''stdio''), (''command'', JStr ''echo''),
                          (''args'', JList [JStr ''hi''])]
               None ''stdio'' (JStr ''echo'') (JList [JStr ''hi'']) kwargs)))"
  using ex_load_default
  by (simp add: from_config_def ex_config_def ex_conf_def target_server_def default_target_def
        server_entry_def obj_get_def transport_fields_def lower_def lower_char_def quoted_def)

lemma ex_from_config_b:
  "from_config ex_world (Some ''b'') None kwargs =
     Inr (fst (init (environ ex_world)
            (init_kwargs [(''transport'', JStr ''sse''), (''base_url'', JStr ''http://f''),
                          (''timeout'', JNum 30)]
               (Some ''http://f'') ''sse'' JNull JNull kwargs)))"
  using ex_load_default
  by (simp add: from_config_def ex_config_def ex_conf_def target_server_def default_target_def
        server_entry_def obj_get_def transport_fields_def lower_def lower_char_def quoted_def)

lemma ex_environ:
  "environ ex_world ''FOO'' = Some ''secret123''" "environ ex_world ''BAR'' = None"
  by (simp_all add: ex_world_def)

lemma ex_target_a: "target_server ''/work/mcp.json'' None ex_config = Inr (JStr ''a'')"
  by (simp add: target_server_def default_target_def ex_config_def ex_conf_def obj_get_def)

lemma ex_entry_a:
  "server_entry ''/work/mcp.json'' ex_config (JStr ''a'') =
     Inr [(''transport'', JStr ''stdio''), (''command'', JStr ''echo''),
          (''args'', JList [JStr ''hi''])]"
  by (simp add: ex_config_def ex_conf_def server_entry_def obj_get_def)

lemma ex_from_config_c:
  "from_config ex_world (Some ''c'') None kwargs =
     Inr (fst (init (environ ex_world)
            (init_kwargs [(''transport'', JStr ''sse''), (''base_url'', JStr ''http://g''),
                          (''api_key'', JStr ''filekey'')]
               (Some ''http://g'') ''sse'' JNull JNull kwargs)))"
  using ex_load_default
  by (simp add: from_config_def ex_config_def ex_conf_def target_server_def default_target_def
        server_entry_def obj_get_def transport_fields_def lower_def lower_char_def quoted_def)

lemma ex_entry_c:
  "server_entry ''/work/mcp.json'' ex_config (JStr ''c'') =
     Inr [(''transport'', JStr ''sse''), (''base_url'', JStr ''http://g''),
          (''api_key'', JStr ''filekey'')]"
  by (simp add: ex_config_def ex_conf_def server_entry_def obj_get_def)

text \<open>
  The example file: \<^verbatim>\<open>timeout=10\<close> against server \<^verbatim>\<open>a\<close>, which has no timeout, and
  against server \<^verbatim>\<open>b\<close>, whose timeout is 30; no override on either. Against server
  \<^verbatim>\<open>c\<close>, whose key is \<^verbatim>\<open>filekey\<close>: the overrides \<^verbatim>\<open>api_key="sk-2"\<close>,
  \<^verbatim>\<open>api_key="env:FOO"\<close> with \<^verbatim>\<open>FOO=secret123\<close>, \<^verbatim>\<open>api_key=""\<close> and \<^verbatim>\<open>api_key="env:BAR"\<close>
  with \<^verbatim>\<open>BAR\<close> unset; and no override.
\<close>

theorem override_precedence_witness:
  "\<not> isl (from_config ex_world None None (no_kwargs\<lparr>kw_timeout := Given (Some 10)\<rparr>))
   \<and> timeout (projr (from_config ex_world None None (no_kwargs\<lparr>kw_timeout := Given (Some 10)\<rparr>)))
       = JNum 10
   \<and> timeout (projr (from_config ex_world None None no_kwargs)) = JNum 60
   \<and> timeout (projr (from_config ex_world (Some ''b'') None
                        (no_kwargs\<lparr>kw_timeout := Given (Some 10)\<rparr>))) = JNum 10
   \<and> timeout (projr (from_config ex_world (Some ''b'') None no_kwargs)) = JNum 30
   \<and> headers (projr (from_config ex_world (Some ''c'') None
                        (no_kwargs\<lparr>kw_api_key := Given (Some ''sk-2'')\<rparr>))) ''Authorization''
       = Some (JStr ''Bearer sk-2'')
   \<and> headers (projr (from_config ex_world (Some ''c'') None
                        (no_kwargs\<lparr>kw_api_key := Given (Some ''env:FOO'')\<rparr>))) ''Authorization''
       = Some (JStr ''Bearer secret123'')
   \<and> headers (projr (from_config ex_world (Some ''c'') None
                        (no_kwargs\<lparr>kw_api_key := Given (Some '''')\<rparr>))) ''Authorization''
       = None
   \<and> headers (projr (from_config ex_world (Some ''c'') None
                        (no_kwargs\<lparr>kw_api_key := Given (Some ''env:BAR'')\<rparr>))) ''Authorization''
       = None
   \<and> headers (projr (from_config ex_world (Some ''c'') None no_kwargs)) ''Authorization''
       = Some (JStr ''Bearer filekey'')"
proof -
  let ?t10 = "no_kwargs\<lparr>kw_timeout := Given (Some 10)\<rparr>"
  have a10: "\<not> isl (from_config ex_world None None ?t10)
             \<and> timeout (projr (from_config ex_world None None ?t10)) = JNum 10"
    using override_precedence [of ex_world None None ?t10
                                  "projr (from_config ex_world None None ?t10)"]
    by (simp add: ex_from_config_a)
  have a60: "timeout (projr (from_config ex_world None None no_kwargs)) = JNum 60"
    using override_precedence [of ex_world None None no_kwargs
                                  "projr (from_config ex_world None None no_kwargs)"]
          ex_load_default ex_entry_a
    by (simp add: ex_from_config_a ex_target_a no_kwargs_def obj_get_def)
  have b10: "timeout (projr (from_config ex_world (Some ''b'') None ?t10)) = JNum 10"
    using override_precedence [of ex_world "Some ''b''" None ?t10
                                  "projr (from_config ex_world (Some ''b'') None ?t10)"]
    by (simp add: ex_from_config_b)
  have b30: "timeout (projr (from_config ex_world (Some ''b'') None no_kwargs)) = JNum 30"
    by (simp add: ex_from_config_b init_fields init_kwargs_def no_kwargs_def obj_get_def)
  let ?lit = "no_kwargs\<lparr>kw_api_key := Given (Some ''sk-2'')\<rparr>"
  have lit: "headers (projr (from_config ex_world (Some ''c'') None ?lit)) ''Authorization''
               = Some (JStr ''Bearer sk-2'')"
    using override_precedence [of ex_world "Some ''c''" None ?lit
                                  "projr (from_config ex_world (Some ''c'') None ?lit)"]
    by (simp add: ex_from_config_c startswith_def)
  let ?foo = "no_kwargs\<lparr>kw_api_key := Given (Some ''env:FOO'')\<rparr>"
  have foo: "headers (projr (from_config ex_world (Some ''c'') None ?foo)) ''Authorization''
               = Some (JStr ''Bearer secret123'')"
    using override_precedence [of ex_world "Some ''c''" None ?foo
                                  "projr (from_config ex_world (Some ''c'') None ?foo)"]
    by (simp add: ex_from_config_c ex_environ)
  let ?emp = "no_kwargs\<lparr>kw_api_key := Given (Some '''')\<rparr>"
  have emp: "headers (projr (from_config ex_world (Some ''c'') None ?emp)) ''Authorization''
               = None"
    using override_precedence [of ex_world "Some ''c''" None ?emp
                                  "projr (from_config ex_world (Some ''c'') None ?emp)"]
          ex_load_default ex_entry_c
    by (simp add: ex_from_config_c target_server_def no_kwargs_def obj_get_def update_with_def)
  let ?bar = "no_kwargs\<lparr>kw_api_key := Given (Some ''env:BAR'')\<rparr>"
  have bar: "headers (projr (from_config ex_world (Some ''c'') None ?bar)) ''Authorization''
               = None"
    using override_precedence [of ex_world "Some ''c''" None ?bar
                                  "projr (from_config ex_world (Some ''c'') None ?bar)"]
          ex_load_default ex_entry_c
    by (simp add: ex_from_config_c target_server_def no_kwargs_def obj_get_def update_with_def
          ex_environ)
  have fkey: "headers (projr (from_config ex_world (Some ''c'') None no_kwargs)) ''Authorization''
               = Some (JStr ''Bearer filekey'')"
    by (simp add: ex_from_config_c headers_init init_kwargs_def no_kwargs_def obj_get_def
          resolve_api_key_def startswith_def build_headers_def Let_def)
  from a10 a60 b10 b30 lit foo emp bar fkey show ?thesis by blast
qed

text \<open>
  C1 as stated fails: \<^verbatim>\<open>from_config("b", timeout=0, base_url="http://h/")\<close> returns a
  client whose timeout is 60 (line 268 replaces a falsy timeout by the default) and whose
  base URL is \<^verbatim>\<open>http://h\<close> (line 103 strips the slash), neither being the override.
\<close>

theorem override_not_verbatim_counterexample:
  "\<not> isl (from_config ex_world (Some ''b'') None
            (no_kwargs\<lparr>kw_timeout := Given (Some 0), kw_base_url := Given (Some ''http://h/'')\<rparr>))
   \<and> timeout (projr (from_config ex_world (Some ''b'') None
            (no_kwargs\<lparr>kw_timeout := Given (Some 0), kw_base_url := Given (Some ''http://h/'')\<rparr>)))
       = JNum 60
   \<and> base_url (projr (from_config ex_world (Some ''b'') None
            (no_kwargs\<lparr>kw_timeout := Given (Some 0), kw_base_url := Given (Some ''http://h/'')\<rparr>)))
       = Some ''http://h''"
  by (simp add: ex_from_config_b init_fields base_url_init init_kwargs_def no_kwargs_def
        obj_get_def DEFAULT_TIMEOUT_def rstrip_def)

end
